theory Spec2Isabelle
  imports Main "HOL-Library.Word"
begin

section \<open>JavaScript values\<close>

text \<open>
  A JavaScript string is a sequence of 16-bit code units. Literals of the source that are
  plain ASCII are written through \<open>js\<close>; the few others are given by their code units.
\<close>

type_synonym jsstring = "16 word list"

definition js :: "string \<Rightarrow> jsstring" where
  "js s = map of_char s"

text \<open>
  The values that flow through the client: \<open>undefined\<close>, \<open>null\<close>, booleans, numbers
  (the integers from \<open>-2^53\<close> to \<open>2^53 - 1\<close>, held as a 54-bit word read as signed:
  each is a number of JavaScript exactly and prints in plain decimal; other numbers are
  not values of the model), strings, arrays and plain objects as \<open>JSON.parse\<close> and object
  literals make them (an association list of own properties, first binding wins). An error
  object is represented by the object of the properties that the program can read from
  it: the program only reads properties of the errors it catches and never converts one
  to a string.
\<close>

datatype jsval =
    JUndefined
  | JNull
  | JBool bool
  | JNum "54 word"
  | JStr jsstring
  | JArr "jsval list"
  | JObj "(jsstring \<times> jsval) list"

text \<open>ToBoolean: what \<open>!v\<close>, \<open>v ? a : b\<close>, \<open>if (v)\<close> and \<open>v || w\<close> test.\<close>

fun truthy :: "jsval \<Rightarrow> bool" where
  "truthy JUndefined = False"
| "truthy JNull = False"
| "truthy (JBool b) = b"
| "truthy (JNum n) = (n \<noteq> 0)"
| "truthy (JStr s) = (s \<noteq> [])"
| "truthy (JArr xs) = True"
| "truthy (JObj fs) = True"

text \<open>\<open>a || b\<close>: the left operand when it is truthy, else the right one.\<close>

definition js_or :: "jsval \<Rightarrow> jsval \<Rightarrow> jsval" where
  "js_or a b = (if truthy a then a else b)"

definition nullish :: "jsval \<Rightarrow> bool" where
  "nullish v = (v = JUndefined \<or> v = JNull)"

text \<open>
  Thrown values. \<open>new Error(m)\<close> has the property \<open>message\<close>. The message of a TypeError
  and of a DOMException is worded by the engine; the wording used here is that of V8 and
  Chromium, and no statement below depends on it.
\<close>

definition Error :: "jsstring \<Rightarrow> jsval" where
  "Error m = JObj [(js ''message'', JStr m)]"

definition TypeError_read :: "jsval \<Rightarrow> jsstring \<Rightarrow> jsval" where
  "TypeError_read v k =
     Error (js ''Cannot read properties of ''
            @ (if v = JNull then js ''null'' else js ''undefined'')
            @ js '' (reading '' @ [0x27] @ k @ [0x27] @ js '')'')"

definition TypeError_primitive :: jsval where
  "TypeError_primitive = Error (js ''Cannot convert object to primitive value'')"

definition QuotaExceededError :: "jsstring \<Rightarrow> jsval" where
  "QuotaExceededError k =
     JObj [(js ''name'', JStr (js ''QuotaExceededError'')),
           (js ''message'',
            JStr (js ''Failed to execute '' @ [0x27] @ js ''setItem'' @ [0x27] @ js '' on ''
                  @ [0x27] @ js ''Storage'' @ [0x27] @ js '': Setting the value of ''
                  @ [0x27] @ k @ [0x27] @ js '' exceeded the quota.''))]"

text \<open>
  ToString, as applied by a template literal \<open>`${v}`\<close> and by \<open>localStorage.setItem\<close> to
  its value argument. It can throw, so the result is the thrown value (\<open>Inl\<close>) or the
  string (\<open>Inr\<close>).
  \<^item> A number prints in decimal, with a minus sign when negative.
  \<^item> A plain object is converted through its \<open>toString\<close> and \<open>valueOf\<close> properties. With
    no own \<open>toString\<close> the inherited method answers \<open>[object Object]\<close>. An own \<open>toString\<close>
    holds a value, which is not callable, and hides the inherited method; \<open>valueOf\<close> is
    then either an own value, not callable, or the inherited method, which answers the
    object itself and not a primitive: the conversion throws a TypeError.
  \<^item> An array prints its elements from left to right, separated by commas, \<open>null\<close> and
    \<open>undefined\<close> as the empty string; the first element whose conversion throws makes the
    conversion of the array throw.
\<close>

fun digits :: "nat \<Rightarrow> jsstring" where
  "digits n = (if n < 10 then [of_nat (48 + n)] else digits (n div 10) @ [of_nat (48 + n mod 10)])"

declare digits.simps [simp del]

definition decimal :: "int \<Rightarrow> jsstring" where
  "decimal n = (if n < 0 then 0x2D # digits (nat (- n)) else digits (nat n))"

fun join_comma :: "jsstring list \<Rightarrow> jsstring" where
  "join_comma [] = []"
| "join_comma [s] = s"
| "join_comma (s # t # ss) = s @ 0x2C # join_comma (t # ss)"

fun collect :: "('e + 'a) list \<Rightarrow> 'e + 'a list" where
  "collect [] = Inr []"
| "collect (Inl e # rs) = Inl e"
| "collect (Inr s # rs) = (case collect rs of Inl e \<Rightarrow> Inl e | Inr ss \<Rightarrow> Inr (s # ss))"

fun ToString :: "jsval \<Rightarrow> jsval + jsstring" where
  "ToString JUndefined = Inr (js ''undefined'')"
| "ToString JNull = Inr (js ''null'')"
| "ToString (JBool b) = Inr (if b then js ''true'' else js ''false'')"
| "ToString (JNum n) = Inr (decimal (sint n))"
| "ToString (JStr s) = Inr s"
| "ToString (JArr xs) =
     (case collect (map (\<lambda>x. if x = JUndefined \<or> x = JNull then Inr [] else ToString x) xs) of
        Inl e \<Rightarrow> Inl e
      | Inr ss \<Rightarrow> Inr (join_comma ss))"
| "ToString (JObj fs) =
     (if js ''toString'' \<in> set (map fst fs) then Inl TypeError_primitive
      else Inr (js ''[object Object]''))"

text \<open>
  Reading a property. \<open>js_get v k\<close> is \<open>v.k\<close> for a value that is neither \<open>null\<close> nor
  \<open>undefined\<close>: an own property of an object, and \<open>undefined\<close> otherwise (none of the names
  the program reads, \<open>response\<close>, \<open>data\<close>, \<open>detail\<close>, \<open>message\<close>, \<open>conversation_id\<close>,
  \<open>answer\<close>, \<open>access_token\<close>, is a property of a primitive or of an array).
  \<open>read_prop v k\<close> is the plain read \<open>v.k\<close>, which throws a TypeError on \<open>null\<close> and
  \<open>undefined\<close>; \<open>opt_prop v k\<close> is the optional chain \<open>v?.k\<close>.
\<close>

fun js_get :: "jsval \<Rightarrow> jsstring \<Rightarrow> jsval" where
  "js_get (JObj fs) k = (case map_of fs k of Some v \<Rightarrow> v | None \<Rightarrow> JUndefined)"
| "js_get v k = JUndefined"

definition read_prop :: "jsval \<Rightarrow> jsstring \<Rightarrow> jsval + jsval" where
  "read_prop v k = (if nullish v then Inl (TypeError_read v k) else Inr (js_get v k))"

definition opt_prop :: "jsval \<Rightarrow> jsstring \<Rightarrow> jsval" where
  "opt_prop v k = (if nullish v then JUndefined else js_get v k)"

subsection \<open>String.prototype.trim\<close>

text \<open>
  \<open>trim\<close> removes leading and trailing WhiteSpace and LineTerminator code points, all of
  which are single code units: TAB, LF, VT, FF, CR, SP, NBSP, U+1680, U+2000 to U+200A,
  LS, PS, U+202F, U+205F, U+3000 and the byte order mark.
\<close>

definition is_space :: "16 word \<Rightarrow> bool" where
  "is_space c \<longleftrightarrow>
     c \<in> {0x9, 0xA, 0xB, 0xC, 0xD, 0x20, 0xA0, 0x1680, 0x2028, 0x2029, 0x202F, 0x205F,
          0x3000, 0xFEFF}
     \<or> (0x2000 \<le> c \<and> c \<le> 0x200A)"

definition trim :: "jsstring \<Rightarrow> jsstring" where
  "trim s = rev (dropWhile is_space (rev (dropWhile is_space s)))"

section \<open>Durable storage and the network\<close>

datatype http_method = GET | POST

record request =
  verb :: http_method
  url :: jsstring
  body :: "jsval option"
  headers :: "(jsstring \<times> jsstring) list"
  bearer :: "jsstring option"

text \<open>
  The world outside the components: the content of \<open>localStorage\<close>, which writes it
  accepts, and the log of the requests handed to the network so far. A browser refuses a
  write when the quota is exceeded or when the storage is not writable; whether the write
  of a string under a key is accepted, given the present content, is the field
  \<open>accepts\<close>, on which nothing is assumed.
\<close>

type_synonym storage = "jsstring \<rightharpoonup> jsstring"

record world =
  storage :: storage
  accepts :: "storage \<Rightarrow> jsstring \<Rightarrow> jsstring \<Rightarrow> bool"
  sent :: "request list"

text \<open>
  \<open>getItem\<close> answers \<open>null\<close> for a key that is not stored. \<open>setItem\<close> converts its
  argument to a string, which can throw, and then writes it unless the storage refuses,
  which throws a \<open>QuotaExceededError\<close>; in both cases nothing is written. Reads and
  removals do not fail.
\<close>

definition getItem :: "storage \<Rightarrow> jsstring \<Rightarrow> jsval" where
  "getItem ls k = (case ls k of None \<Rightarrow> JNull | Some v \<Rightarrow> JStr v)"

definition setItem :: "world \<Rightarrow> jsstring \<Rightarrow> jsval \<Rightarrow> jsval + world" where
  "setItem w k v =
     (case ToString v of
        Inl e \<Rightarrow> Inl e
      | Inr s \<Rightarrow>
          if accepts w (storage w) k s then Inr (w\<lparr>storage := (storage w)(k \<mapsto> s)\<rparr>)
          else Inl (QuotaExceededError k))"

definition removeItem :: "storage \<Rightarrow> jsstring \<Rightarrow> storage" where
  "removeItem ls k = ls(k := None)"

text \<open>
  How a request settles: the promise of \<open>api.get\<close>/\<open>api.post\<close> is fulfilled with a
  response, of which the callers read the \<open>data\<close> field (carried by \<open>Fulfilled\<close>), or it
  is rejected with an error value. The same type describes how an \<open>async\<close> function of the
  client settles. A backend answers each request with an outcome.
\<close>

datatype outcome = Fulfilled jsval | Rejected jsval

type_synonym backend = "request \<Rightarrow> outcome"

text \<open>Handing a request to the network appends it to the log.\<close>

definition dispatch :: "request \<Rightarrow> world \<Rightarrow> world" where
  "dispatch r w = w\<lparr>sent := sent w @ [r]\<rparr>"

text \<open>
  Modelled from the spec: the transport module \<open>./client\<close> (the \<open>api\<close> object) is not among
  the sources. The spec describes it as a client offering GET and POST with JSON bodies
  that reads the persisted token on every call and injects it as the bearer credential;
  the token lives under the key that \<open>login\<close> writes. \<open>api_request\<close> is the request
  that the module builds.
\<close>

definition api_request ::
  "world \<Rightarrow> http_method \<Rightarrow> jsstring \<Rightarrow> jsval option \<Rightarrow> (jsstring \<times> jsstring) list \<Rightarrow> request" where
  "api_request w m u b hs =
     \<lparr>verb = m, url = u, body = b, headers = hs, bearer = storage w (js ''access_token'')\<rparr>"

text \<open>
  Modelled from the spec: \<open>api.get(url)\<close> of the missing transport module. The request is
  sent, and the call settles as the backend answers it.
\<close>

definition api_get :: "backend \<Rightarrow> jsstring \<Rightarrow> world \<Rightarrow> outcome \<times> world" where
  "api_get srv u w = (let r = api_request w GET u None [] in (srv r, dispatch r w))"

text \<open>
  Modelled from the spec: \<open>api.post(url, body, {headers})\<close> of the missing transport
  module, likewise.
\<close>

definition api_post ::
  "backend \<Rightarrow> jsstring \<Rightarrow> jsval \<Rightarrow> (jsstring \<times> jsstring) list \<Rightarrow> world \<Rightarrow> outcome \<times> world" where
  "api_post srv u b hs w = (let r = api_request w POST u (Some b) hs in (srv r, dispatch r w))"

section \<open>Auth client\<close>

text \<open>
  \<open>login\<close> posts the credentials; when the post is fulfilled it reads \<open>data.access_token\<close>
  (a TypeError when the body is \<open>null\<close> or \<open>undefined\<close>), stores it (which can throw as
  \<open>setItem\<close> does), and returns the body; a throw rejects the call. \<open>me\<close> returns the
  body of \<open>GET /auth/me\<close>. \<open>logout\<close> removes the token key.
\<close>

definition login :: "backend \<Rightarrow> jsval \<Rightarrow> jsval \<Rightarrow> world \<Rightarrow> outcome \<times> world" where
  "login srv email password w =
     (case api_post srv (js ''/auth/login'')
             (JObj [(js ''email'', email), (js ''password'', password)]) [] w of
        (Rejected e, w1) \<Rightarrow> (Rejected e, w1)
      | (Fulfilled data, w1) \<Rightarrow>
          (case read_prop data (js ''access_token'') of
             Inl e \<Rightarrow> (Rejected e, w1)
           | Inr tok \<Rightarrow>
               (case setItem w1 (js ''access_token'') tok of
                  Inl e \<Rightarrow> (Rejected e, w1)
                | Inr w2 \<Rightarrow> (Fulfilled data, w2))))"

definition me :: "backend \<Rightarrow> world \<Rightarrow> outcome \<times> world" where
  "me srv w = api_get srv (js ''/auth/me'') w"

definition logout :: "world \<Rightarrow> world" where
  "logout w = w\<lparr>storage := removeItem (storage w) (js ''access_token'')\<rparr>"

section \<open>Session context and route guard\<close>

text \<open>
  The state of \<open>AuthProvider\<close>. \<open>refresh\<close> performs state writes in program order; the
  writes are kept as a list so that their order can be stated, and the state after
  \<open>refresh\<close> is the state after performing them.
\<close>

record session =
  user :: jsval
  loading :: bool

definition session_init :: session where
  "session_init = \<lparr>user = JNull, loading = True\<rparr>"

datatype session_write = SetUser jsval | SetLoading bool

fun perform :: "session \<Rightarrow> session_write \<Rightarrow> session" where
  "perform s (SetUser u) = s\<lparr>user := u\<rparr>"
| "perform s (SetLoading b) = s\<lparr>loading := b\<rparr>"

fun refresh_writes :: "outcome \<Rightarrow> session_write list" where
  "refresh_writes (Fulfilled u) = [SetUser u, SetLoading False]"
| "refresh_writes (Rejected e) = [SetUser JNull, SetLoading False]"

definition refresh :: "backend \<Rightarrow> session \<times> world \<Rightarrow> session \<times> world" where
  "refresh srv sw =
     (case me srv (snd sw) of (r, w1) \<Rightarrow> (foldl perform (fst sw) (refresh_writes r), w1))"

text \<open>What \<open>ProtectedRoute\<close> returns for its children \<open>c\<close>.\<close>

datatype 'a element = LoadingDiv | Navigate jsstring bool | Children 'a

definition ProtectedRoute :: "session \<Rightarrow> 'a \<Rightarrow> 'a element" where
  "ProtectedRoute s c =
     (if loading s then LoadingDiv
      else if \<not> truthy (user s) then Navigate (js ''/login'') True
      else Children c)"

section \<open>Chat client\<close>

text \<open>
  \<open>sendChat\<close> up to its \<open>await\<close>. The guard \<open>!message || !message.trim()\<close> throws the
  validation error for a falsy message and for a string that trims to the empty string; a
  truthy message that is not a string has no \<open>trim\<close> method, and calling it throws a
  TypeError. Past the guard the payload holds \<open>message\<close>, then \<open>conversation_id\<close> when
  \<open>conversationId\<close> is truthy, then \<open>where\<close> when \<open>where\<close> is truthy. An absent argument is
  \<open>undefined\<close>.
\<close>

definition TypeError_call :: "jsstring \<Rightarrow> jsval" where
  "TypeError_call f = Error (f @ js '' is not a function'')"

definition sendChat_payload :: "jsval \<Rightarrow> jsval \<Rightarrow> jsval \<Rightarrow> jsval + jsval" where
  "sendChat_payload message conversationId whr =
     (if \<not> truthy message then Inl (Error (js ''Message is required''))
      else case message of
          JStr s \<Rightarrow>
            if trim s = [] then Inl (Error (js ''Message is required''))
            else Inr (JObj ([(js ''message'', message)]
                   @ (if truthy conversationId then [(js ''conversation_id'', conversationId)] else [])
                   @ (if truthy whr then [(js ''where'', whr)] else [])))
        | _ \<Rightarrow> Inl (TypeError_call (js ''message.trim'')))"

text \<open>
  \<open>sendChat\<close> either throws (\<open>Inl\<close>, nothing is sent) or hands \<open>POST /chat\<close> to the
  network (\<open>Inr\<close>, the request in flight); in the second case it later settles as that
  request does, returning the \<open>data\<close> of the response.
\<close>

definition sendChat :: "jsval \<Rightarrow> jsval \<Rightarrow> jsval \<Rightarrow> world \<Rightarrow> (jsval + request) \<times> world" where
  "sendChat message conversationId whr w =
     (case sendChat_payload message conversationId whr of
        Inl e \<Rightarrow> (Inl e, w)
      | Inr payload \<Rightarrow>
          (let r = api_request w POST (js ''/chat'') (Some payload)
                     [(js ''Content-Type'', js ''application/json'')]
           in (Inr r, dispatch r w)))"

section \<open>Chat page\<close>

record message =
  role :: jsstring
  content :: jsval

text \<open>
  The state of \<open>ChatPage\<close>; its \<open>loading\<close> flag is the field \<open>chat_loading\<close> (the
  session has a \<open>loading\<close> of its own). The greeting ends in U+1F4DA (a surrogate pair)
  and U+2728.
\<close>

record chat_page =
  convId :: jsval
  msgs :: "message list"
  chat_loading :: bool

definition greeting :: message where
  "greeting = \<lparr>role = js ''assistant'',
     content = JStr (js ''Hey! Tell me what kind of book you want '' @ [0xD83D, 0xDCDA, 0x2728])\<rparr>"

definition chat_init :: chat_page where
  "chat_init = \<lparr>convId = JUndefined, msgs = [greeting], chat_loading = False\<rparr>"

text \<open>The mount effect that resumes the conversation: a stored truthy identifier is loaded.\<close>

definition load_convId :: "world \<Rightarrow> chat_page \<Rightarrow> chat_page" where
  "load_convId w p =
     (let savedConvId = getItem (storage w) (js ''convId'')
      in if truthy savedConvId then p\<lparr>convId := savedConvId\<rparr> else p)"

text \<open>
  \<open>onSend\<close> runs in two parts. \<open>onSend_begin\<close> is the part before the \<open>await\<close>: the
  user entry is appended, the flag is raised and \<open>sendChat\<close> is called with the text and
  the \<open>convId\<close> of the current render. \<open>onSend_settle\<close> is the part after it, run when the
  call has settled: the \<open>try\<close> body on fulfilment, the \<open>catch\<close> block when the call was
  rejected or the \<open>try\<close> body throws, then \<open>finally\<close>. In the \<open>try\<close> body, reading
  \<open>res.conversation_id\<close> throws when \<open>res\<close> is \<open>null\<close> or \<open>undefined\<close>, before any
  write; \<open>setConvId\<close> comes next, and then \<open>localStorage.setItem\<close>, which can throw
  with the held identifier already set.

  The state writes are functional updates, which React runs on the state current when it
  renders the page next. The update of the \<open>catch\<close> block evaluates its template literal
  at that time: when the conversion of the reason throws, the update throws, no entry is
  appended, and the render of the page throws (\<open>Inl\<close>). The application has no error
  boundary, so React then unmounts the tree. The warning sign is U+26A0 U+FE0F.
\<close>

definition onSend_begin ::
  "jsval \<Rightarrow> chat_page \<times> world \<Rightarrow> chat_page \<times> (jsval + request) \<times> world" where
  "onSend_begin t pw =
     (let p = fst pw;
          userMsg = \<lparr>role = js ''user'', content = t\<rparr>;
          p1 = p\<lparr>msgs := msgs p @ [userMsg], chat_loading := True\<rparr>;
          (r, w1) = sendChat t (convId p) JUndefined (snd pw)
      in (p1, r, w1))"

definition error_detail :: "jsval \<Rightarrow> jsval" where
  "error_detail e = opt_prop (opt_prop (opt_prop e (js ''response'')) (js ''data'')) (js ''detail'')"

definition error_message :: "jsval \<Rightarrow> jsval" where
  "error_message e = opt_prop e (js ''message'')"

definition serverDetail :: "jsval \<Rightarrow> jsval" where
  "serverDetail e = js_or (js_or (error_detail e) (error_message e)) (JStr (js ''Chat error''))"

definition warning :: "jsval \<Rightarrow> jsval + message" where
  "warning d =
     (case ToString d of
        Inl x \<Rightarrow> Inl x
      | Inr s \<Rightarrow> Inr \<lparr>role = js ''assistant'', content = JStr ([0x26A0, 0xFE0F, 0x20] @ s)\<rparr>)"

definition onSend_catch :: "jsval \<Rightarrow> chat_page \<Rightarrow> jsval + chat_page" where
  "onSend_catch e p =
     (case warning (serverDetail e) of
        Inl x \<Rightarrow> Inl x
      | Inr m \<Rightarrow> Inr (p\<lparr>msgs := msgs p @ [m]\<rparr>))"

definition onSend_finally :: "jsval + chat_page \<Rightarrow> jsval + chat_page" where
  "onSend_finally r =
     (case r of Inl x \<Rightarrow> Inl x | Inr p \<Rightarrow> Inr (p\<lparr>chat_loading := False\<rparr>))"

definition onSend_settle ::
  "outcome \<Rightarrow> chat_page \<times> world \<Rightarrow> (jsval + chat_page) \<times> world" where
  "onSend_settle oc pw =
     (let p = fst pw; w = snd pw;
          (r, w1) =
            (case oc of
               Rejected e \<Rightarrow> (onSend_catch e p, w)
             | Fulfilled res \<Rightarrow>
                 (case read_prop res (js ''conversation_id'') of
                    Inl e \<Rightarrow> (onSend_catch e p, w)
                  | Inr cid \<Rightarrow>
                      (case setItem w (js ''convId'') cid of
                         Inl e \<Rightarrow> (onSend_catch e (p\<lparr>convId := cid\<rparr>), w)
                       | Inr w2 \<Rightarrow>
                           (Inr (p\<lparr>convId := cid,
                                   msgs := msgs p @ [\<lparr>role = js ''assistant'',
                                                     content = js_get res (js ''answer'')\<rparr>]\<rparr>),
                            w2))))
      in (onSend_finally r, w1))"

section \<open>The chat view as a transition system\<close>

text \<open>
  The view is the page as last rendered, whether the tree is still mounted, the text held
  by \<open>MessageInput\<close>, the world, and the chat requests that are in flight.
  \<open>MessageInput\<close> destructures \<open>onSend\<close> alone from its props: the \<open>disabled\<close> prop that
  \<open>ChatPage\<close> passes is not read, and neither the input nor the button carries a
  \<open>disabled\<close> attribute, so \<open>handleSend\<close> does not depend on \<open>chat_loading\<close>. A mounted
  page has run its effect that loads the stored identifier; the identity check it also
  makes on mount, the scrolling, and how \<open>ChatMessage\<close> (not among the sources) displays
  an entry are left out.
\<close>

record app =
  page :: chat_page
  mounted :: bool
  input_value :: jsstring
  env :: world
  inflight :: "request list"

definition app_init :: "world \<Rightarrow> app" where
  "app_init w =
     \<lparr>page = load_convId w chat_init, mounted = True, input_value = [], env = w, inflight = []\<rparr>"

text \<open>
  \<open>onSend\<close> in the view: after \<open>onSend_begin\<close> the request joins those in flight; had
  \<open>sendChat\<close> thrown, the rejection would be handled at once, before any other event.
\<close>

definition onSend :: "jsval \<Rightarrow> app \<Rightarrow> app" where
  "onSend t a =
     (case onSend_begin t (page a, env a) of
        (p1, Inl e, w1) \<Rightarrow>
          (case onSend_settle (Rejected e) (p1, w1) of
             (Inr p2, w2) \<Rightarrow> a\<lparr>page := p2, env := w2\<rparr>
           | (Inl x, w2) \<Rightarrow> a\<lparr>page := p1, mounted := False, env := w2\<rparr>)
      | (p1, Inr r, w1) \<Rightarrow> a\<lparr>page := p1, env := w1, inflight := inflight a @ [r]\<rparr>)"

definition handleSend :: "app \<Rightarrow> app" where
  "handleSend a =
     (let v = trim (input_value a)
      in if v = [] then a else (onSend (JStr v) a)\<lparr>input_value := []\<rparr>)"

text \<open>
  When a request in flight settles, the second part of \<open>onSend\<close> runs. On a mounted tree
  its state writes take effect, or the render throws and the tree is unmounted. On an
  unmounted tree the state writes do nothing; the write to the storage happens all the
  same.
\<close>

definition settle :: "nat \<Rightarrow> outcome \<Rightarrow> app \<Rightarrow> app" where
  "settle i oc a =
     (if i < length (inflight a)
      then (let (r, w) = onSend_settle oc (page a, env a);
                a1 = (if mounted a
                      then (case r of Inr p \<Rightarrow> a\<lparr>page := p\<rparr> | Inl x \<Rightarrow> a\<lparr>mounted := False\<rparr>)
                      else a)
            in a1\<lparr>env := w, inflight := take i (inflight a) @ drop (Suc i) (inflight a)\<rparr>)
      else a)"

text \<open>
  Events: the user edits the input, the user presses Enter or clicks Send (both need a
  mounted tree), and the \<open>i\<close>-th request in flight settles with some outcome.
\<close>

datatype event = Change jsstring | Send | Settle nat outcome

fun step :: "app \<Rightarrow> event \<Rightarrow> app" where
  "step a (Change v) = (if mounted a then a\<lparr>input_value := v\<rparr> else a)"
| "step a Send = (if mounted a then handleSend a else a)"
| "step a (Settle i oc) = settle i oc a"

definition run :: "event list \<Rightarrow> app \<Rightarrow> app" where
  "run es a = foldl step a es"

section \<open>Notions used in the statements\<close>

text \<open>
  The reason of a failure in the words of the specification: the detail supplied by the
  server if it is present, else the message of the error if it is present, else the
  fallback literal. It is compared with \<open>serverDetail\<close> below.
\<close>

definition spec_reason :: "jsval \<Rightarrow> jsval" where
  "spec_reason e =
     (if error_detail e \<noteq> JUndefined then error_detail e
      else if error_message e \<noteq> JUndefined then error_message e
      else JStr (js ''Chat error''))"

text \<open>
  The error that the \<open>catch\<close> block of \<open>onSend\<close> receives, if it runs: the rejection, the
  TypeError of reading \<open>conversation_id\<close> from \<open>null\<close> or \<open>undefined\<close>, or what
  \<open>localStorage.setItem\<close> throws. A turn fails when the \<open>catch\<close> block runs; the exchange
  itself fails in the first two cases.
\<close>

fun caught :: "outcome \<Rightarrow> world \<Rightarrow> jsval option" where
  "caught (Rejected e) w = Some e"
| "caught (Fulfilled res) w =
     (case read_prop res (js ''conversation_id'') of
        Inl e \<Rightarrow> Some e
      | Inr cid \<Rightarrow> (case setItem w (js ''convId'') cid of Inl e \<Rightarrow> Some e | Inr w2 \<Rightarrow> None))"

definition turn_failed :: "outcome \<Rightarrow> world \<Rightarrow> bool" where
  "turn_failed oc w = (caught oc w \<noteq> None)"

fun exchange_failed :: "outcome \<Rightarrow> bool" where
  "exchange_failed (Rejected e) = True"
| "exchange_failed (Fulfilled res) = nullish res"

text \<open>A value is printable when its conversion to a string does not throw.\<close>

definition printable :: "jsval \<Rightarrow> bool" where
  "printable v = (case ToString v of Inl x \<Rightarrow> False | Inr s \<Rightarrow> True)"

text \<open>
  The page after the state writes of the \<open>try\<close> body that precede the call of
  \<open>localStorage.setItem\<close>: the held identifier is set once the body has been read.
\<close>

fun after_try :: "outcome \<Rightarrow> chat_page \<Rightarrow> chat_page" where
  "after_try (Rejected e) p = p"
| "after_try (Fulfilled res) p =
     (if nullish res then p else p\<lparr>convId := js_get res (js ''conversation_id'')\<rparr>)"







section \<open>Example data\<close>

text \<open>
  A backend for the concrete runs below: it issues the token \<open>t0k3n\<close> on login and
  answers any other request that carries this token with a profile, and with status 401
  otherwise. \<open>world_init\<close> is an empty storage that accepts every write,
  \<open>world_refusing\<close> an empty storage that refuses every write, and \<open>world_full\<close> one that
  holds an identifier and refuses every write.
\<close>

definition example_backend :: backend where
  "example_backend r =
     (if url r = js ''/auth/login''
      then Fulfilled (JObj [(js ''access_token'', JStr (js ''t0k3n'')),
                            (js ''token_type'', JStr (js ''bearer''))])
      else if bearer r = Some (js ''t0k3n'')
      then Fulfilled (JObj [(js ''id'', JNum 7), (js ''email'', JStr (js ''u@x.com''))])
      else Rejected (JObj [(js ''message'', JStr (js ''Request failed with status code 401''))]))"

definition world_init :: world where
  "world_init = \<lparr>storage = Map.empty, accepts = (\<lambda>ls k v. True), sent = []\<rparr>"

definition world_refusing :: world where
  "world_refusing = \<lparr>storage = Map.empty, accepts = (\<lambda>ls k v. False), sent = []\<rparr>"

definition world_full :: world where
  "world_full = world_refusing\<lparr>storage := [js ''convId'' \<mapsto> js ''abc123'']\<rparr>"

text \<open>
  Views and outcomes for the concrete runs: an input holding \<open>dune\<close> between spaces, an
  input of white space only, a view mounted over a stored identifier with \<open>more\<close> typed
  in, the views after a
  reload that follows a successful first turn (with a string identifier, with a number,
  and over a storage that refused the write), successful replies (with a string
  identifier, with another one, with a number), a failure whose body carries a detail, one
  whose detail is the empty string, one whose detail is an object with an own \<open>toString\<close>
  property, and one whose detail is a list of two objects.
\<close>

definition example_app :: app where
  "example_app = (app_init world_init)\<lparr>input_value := js ''  dune  ''\<rparr>"

definition example_blank :: app where
  "example_blank = (app_init world_init)\<lparr>input_value := [0x20, 0x9, 0xA0, 0x20]\<rparr>"

definition example_resumed :: app where
  "example_resumed =
     (app_init (world_init\<lparr>storage := [js ''convId'' \<mapsto> js ''abc123'']\<rparr>))
       \<lparr>input_value := js ''more''\<rparr>"

definition example_reply :: jsval where
  "example_reply =
     JObj [(js ''conversation_id'', JStr (js ''abc123'')), (js ''answer'', JStr (js ''Try Dune''))]"

definition example_other_reply :: jsval where
  "example_other_reply =
     JObj [(js ''conversation_id'', JStr (js ''xyz789'')), (js ''answer'', JStr (js ''Try Emma''))]"






definition example_failure :: jsval where
  "example_failure =
     JObj [(js ''message'', JStr (js ''Request failed with status code 404'')),
           (js ''response'', JObj [(js ''status'', JNum 404),
              (js ''data'', JObj [(js ''detail'', JStr (js ''conversation not found''))])])]"

definition example_empty_detail :: jsval where
  "example_empty_detail =
     JObj [(js ''message'', JStr (js ''Request failed with status code 400'')),
           (js ''response'', JObj [(js ''status'', JNum 400),
              (js ''data'', JObj [(js ''detail'', JStr [])])])]"

definition example_unprintable :: jsval where
  "example_unprintable =
     JObj [(js ''message'', JStr (js ''Request failed with status code 400'')),
           (js ''response'', JObj [(js ''status'', JNum 400),
              (js ''data'', JObj [(js ''detail'', JObj [(js ''toString'', JNum 0)])])])]"

definition example_validation :: jsval where
  "example_validation =
     JObj [(js ''message'', JStr (js ''Request failed with status code 422'')),
           (js ''response'', JObj [(js ''status'', JNum 422),
              (js ''data'', JObj [(js ''detail'',
                 JArr [JObj [(js ''loc'', JArr [JStr (js ''body''), JStr (js ''message'')]),
                             (js ''msg'', JStr (js ''field required''))],
                       JObj [(js ''loc'', JArr [JStr (js ''body''), JStr (js ''where'')]),
                             (js ''msg'', JStr (js ''value is not a valid dict''))]])])])]"

section \<open>Route guard\<close>

text \<open>
  Claim C8. The guard is a function of the session alone, with three cases: while
  \<open>loading\<close> it returns the waiting element (not a navigation); when \<open>loading\<close> is false
  and there is no user (\<open>null\<close>, or any falsy value) it returns the navigation to
  \<open>/login\<close> with \<open>replace\<close>, and not the children; when \<open>loading\<close> is false and a user
  is present (a profile object, or any truthy value) it returns the children unchanged.
\<close>

theorem ProtectedRoute_cases:
  "(loading s \<longrightarrow> ProtectedRoute s c = LoadingDiv)
   \<and> (\<not> loading s \<longrightarrow> \<not> truthy (user s) \<longrightarrow> ProtectedRoute s c = Navigate (js ''/login'') True)
   \<and> (\<not> loading s \<longrightarrow> user s = JNull \<longrightarrow> ProtectedRoute s c = Navigate (js ''/login'') True)
   \<and> (\<not> loading s \<longrightarrow> truthy (user s) \<longrightarrow> ProtectedRoute s c = Children c)
   \<and> (\<not> loading s \<longrightarrow> user s = JObj fs \<longrightarrow> ProtectedRoute s c = Children c)"
  by (simp add: ProtectedRoute_def)

theorem ProtectedRoute_cases_witness:
  "ProtectedRoute \<lparr>user = JNull, loading = True\<rparr> ''ChatPage'' = LoadingDiv
   \<and> ProtectedRoute \<lparr>user = JNull, loading = False\<rparr> ''ChatPage'' = Navigate (js ''/login'') True
   \<and> ProtectedRoute \<lparr>user = JObj [(js ''id'', JNum 7)], loading = False\<rparr> ''ChatPage''
       = Children ''ChatPage''"
  using ProtectedRoute_cases [of "\<lparr>user = JNull, loading = True\<rparr>" "''ChatPage''"]
    ProtectedRoute_cases [of "\<lparr>user = JNull, loading = False\<rparr>" "''ChatPage''"]
    ProtectedRoute_cases [of "\<lparr>user = JObj [(js ''id'', JNum 7)], loading = False\<rparr>"
      "''ChatPage''" "[(js ''id'', JNum 7)]"]
  by simp

section \<open>Session refresh\<close>

lemma me_world: "snd (me srv w) = dispatch (api_request w GET (js ''/auth/me'') None []) w"
  by (simp add: me_def api_get_def Let_def)

lemma me_outcome: "fst (me srv w) = srv (api_request w GET (js ''/auth/me'') None [])"
  by (simp add: me_def api_get_def Let_def)

lemma api_request_dispatch: "api_request (dispatch r w) m u b hs = api_request w m u b hs"
  by (simp add: api_request_def dispatch_def)

lemma refresh_eq:
  "refresh srv (s, w) =
     (foldl perform s (refresh_writes (fst (me srv w))), snd (me srv w))"
  by (simp add: refresh_def split: prod.splits)

text \<open>
  Claim C5. When \<open>me\<close> is fulfilled with \<open>u\<close>, \<open>refresh\<close> leaves the session at
  \<open>{user: u, loading: false}\<close>; when \<open>me\<close> is rejected, whatever the error, at
  \<open>{user: null, loading: false}\<close>. However \<open>me\<close> settles, the last state write of
  \<open>refresh\<close> is \<open>setLoading(false)\<close>, and \<open>loading\<close> is false afterwards. Running
  \<open>refresh\<close> a second time against the same backend gives the session that one run gives.
\<close>

theorem refresh_final_state:
  "(fst (me srv w) = Fulfilled u \<longrightarrow> fst (refresh srv (s, w)) = \<lparr>user = u, loading = False\<rparr>)
   \<and> (fst (me srv w) = Rejected e \<longrightarrow> fst (refresh srv (s, w)) = \<lparr>user = JNull, loading = False\<rparr>)
   \<and> last (refresh_writes r) = SetLoading False
   \<and> \<not> loading (fst (refresh srv (s, w)))
   \<and> fst (refresh srv (refresh srv (s, w))) = fst (refresh srv (s, w))"
proof -
  have twice: "fst (me srv (snd (me srv w))) = fst (me srv w)"
    by (simp add: me_outcome me_world api_request_dispatch)
  have final: "last (refresh_writes r) = SetLoading False"
    by (cases r) simp_all
  have flag: "\<not> loading (foldl perform s' (refresh_writes r'))" for s' r'
    by (cases r') simp_all
  have same: "foldl perform (foldl perform s' (refresh_writes r')) (refresh_writes r')
      = foldl perform s' (refresh_writes r')" for s' r'
    by (cases r') simp_all
  show ?thesis
    by (simp add: refresh_eq twice final flag same)
qed

theorem refresh_final_state_witness:
  "fst (refresh example_backend (session_init, world_init)) = \<lparr>user = JNull, loading = False\<rparr>
   \<and> fst (refresh example_backend
        (session_init, world_init\<lparr>storage := [js ''access_token'' \<mapsto> js ''t0k3n'']\<rparr>))
       = \<lparr>user = JObj [(js ''id'', JNum 7), (js ''email'', JStr (js ''u@x.com''))], loading = False\<rparr>"
  using refresh_final_state [where srv = example_backend and w = world_init and s = session_init
      and e = "JObj [(js ''message'', JStr (js ''Request failed with status code 401''))]"]
    refresh_final_state [where srv = example_backend and s = session_init
      and w = "world_init\<lparr>storage := [js ''access_token'' \<mapsto> js ''t0k3n'']\<rparr>"
      and u = "JObj [(js ''id'', JNum 7), (js ''email'', JStr (js ''u@x.com''))]"]
  by (simp add: me_def api_get_def api_request_def example_backend_def world_init_def js_def)

section \<open>Auth client: logout and login\<close>

text \<open>
  Claim C9. \<open>logout\<close> removes the token key and nothing else: every other key of the
  storage keeps its value, in particular the conversation identifier, no request is handed
  to the network, and a chat page mounted afterwards loads the same identifier as before.
  The function takes and returns the world only, so no state of a component is written.
\<close>

theorem logout_local:
  "storage (logout w) (js ''access_token'') = None
   \<and> (\<forall>k. k \<noteq> js ''access_token'' \<longrightarrow> storage (logout w) k = storage w k)
   \<and> storage (logout w) (js ''convId'') = storage w (js ''convId'')
   \<and> sent (logout w) = sent w
   \<and> load_convId (logout w) p = load_convId w p"
  by (simp add: logout_def removeItem_def load_convId_def getItem_def js_def)

theorem logout_local_witness:
  "storage (logout (world_init\<lparr>storage := [js ''access_token'' \<mapsto> js ''t0k3n'', js ''convId'' \<mapsto> js ''abc123'']\<rparr>)) (js ''access_token'') = None
   \<and> storage (logout (world_init\<lparr>storage := [js ''access_token'' \<mapsto> js ''t0k3n'', js ''convId'' \<mapsto> js ''abc123'']\<rparr>)) (js ''convId'') = Some (js ''abc123'')
   \<and> convId (load_convId (logout (world_init\<lparr>storage := [js ''access_token'' \<mapsto> js ''t0k3n'', js ''convId'' \<mapsto> js ''abc123'']\<rparr>)) chat_init) = JStr (js ''abc123'')"
  using logout_local [of "world_init\<lparr>storage := [js ''access_token'' \<mapsto> js ''t0k3n'', js ''convId'' \<mapsto> js ''abc123'']\<rparr>" chat_init]
  by (simp add: world_init_def load_convId_def getItem_def js_def)

lemma login_Fulfilled:
  assumes "login srv email password w = (Fulfilled data, w1)"
  shows "srv (api_request w POST (js ''/auth/login'')
            (Some (JObj [(js ''email'', email), (js ''password'', password)])) []) = Fulfilled data"
    and "\<not> nullish data"
    and "\<exists>t. ToString (js_get data (js ''access_token'')) = Inr t
           \<and> storage w1 = (storage w)(js ''access_token'' \<mapsto> t)
           \<and> sent w1 = sent w @ [api_request w POST (js ''/auth/login'')
                (Some (JObj [(js ''email'', email), (js ''password'', password)])) []]"
  using assms
  by (auto simp: login_def api_post_def Let_def read_prop_def dispatch_def setItem_def
      split: outcome.splits sum.splits if_splits)

text \<open>
  Claim C7. When a call of \<open>login\<close> succeeds with the body \<open>data\<close>, that body is the one
  the backend answered, and the world the caller continues in already holds
  \<open>data.access_token\<close> (as the string \<open>t\<close> it converts to) under the token key. A call of
  \<open>me\<close> made in that world sends \<open>GET /auth/me\<close> carrying this token as its bearer
  credential, and settles as the backend answers that request: it succeeds whenever the
  backend accepts the token it has issued.
\<close>

theorem login_persists_token:
  "login srv email password w = (Fulfilled data, w1) \<longrightarrow>
     srv (api_request w POST (js ''/auth/login'')
            (Some (JObj [(js ''email'', email), (js ''password'', password)])) []) = Fulfilled data
     \<and> (\<exists>t. ToString (js_get data (js ''access_token'')) = Inr t
          \<and> storage w1 (js ''access_token'') = Some t
          \<and> sent (snd (me srv w1)) = sent w1 @
               [\<lparr>verb = GET, url = js ''/auth/me'', body = None, headers = [], bearer = Some t\<rparr>]
          \<and> fst (me srv w1) =
               srv \<lparr>verb = GET, url = js ''/auth/me'', body = None, headers = [],
                    bearer = Some t\<rparr>)"
proof
  assume a: "login srv email password w = (Fulfilled data, w1)"
  from login_Fulfilled(3) [OF a]
  obtain t where c: "ToString (js_get data (js ''access_token'')) = Inr t"
    and s: "storage w1 = (storage w)(js ''access_token'' \<mapsto> t)"
    by blast
  have tok: "storage w1 (js ''access_token'') = Some t"
    by (simp add: s)
  have req: "api_request w1 GET (js ''/auth/me'') None [] =
      \<lparr>verb = GET, url = js ''/auth/me'', body = None, headers = [], bearer = Some t\<rparr>"
    using tok by (simp add: api_request_def)
  have rest: "sent (snd (me srv w1)) = sent w1 @
               [\<lparr>verb = GET, url = js ''/auth/me'', body = None, headers = [], bearer = Some t\<rparr>]
          \<and> fst (me srv w1) =
               srv \<lparr>verb = GET, url = js ''/auth/me'', body = None, headers = [],
                    bearer = Some t\<rparr>"
    using req by (simp add: me_world me_outcome dispatch_def)
  show "srv (api_request w POST (js ''/auth/login'')
            (Some (JObj [(js ''email'', email), (js ''password'', password)])) []) = Fulfilled data
     \<and> (\<exists>t. ToString (js_get data (js ''access_token'')) = Inr t
          \<and> storage w1 (js ''access_token'') = Some t
          \<and> sent (snd (me srv w1)) = sent w1 @
               [\<lparr>verb = GET, url = js ''/auth/me'', body = None, headers = [], bearer = Some t\<rparr>]
          \<and> fst (me srv w1) =
               srv \<lparr>verb = GET, url = js ''/auth/me'', body = None, headers = [],
                    bearer = Some t\<rparr>)"
    using login_Fulfilled(1) [OF a] c tok rest by blast
qed

theorem login_persists_token_witness:
  "fst (login example_backend (JStr (js ''u@x.com'')) (JStr (js ''pw'')) world_init)
     = Fulfilled (JObj [(js ''access_token'', JStr (js ''t0k3n'')), (js ''token_type'', JStr (js ''bearer''))])
   \<and> storage (snd (login example_backend (JStr (js ''u@x.com'')) (JStr (js ''pw'')) world_init))
        (js ''access_token'') = Some (js ''t0k3n'')
   \<and> fst (me example_backend (snd (login example_backend (JStr (js ''u@x.com'')) (JStr (js ''pw'')) world_init)))
     = Fulfilled (JObj [(js ''id'', JNum 7), (js ''email'', JStr (js ''u@x.com''))])"
proof -
  have first: "fst (login example_backend (JStr (js ''u@x.com'')) (JStr (js ''pw'')) world_init)
     = Fulfilled (JObj [(js ''access_token'', JStr (js ''t0k3n'')), (js ''token_type'', JStr (js ''bearer''))])"
    by (simp add: login_def api_post_def api_request_def example_backend_def read_prop_def
        nullish_def setItem_def world_init_def dispatch_def Let_def)
  then have run: "login example_backend (JStr (js ''u@x.com'')) (JStr (js ''pw'')) world_init
     = (Fulfilled (JObj [(js ''access_token'', JStr (js ''t0k3n'')), (js ''token_type'', JStr (js ''bearer''))]),
        snd (login example_backend (JStr (js ''u@x.com'')) (JStr (js ''pw'')) world_init))"
    by (metis prod.collapse)
  note fact = login_persists_token [where srv = example_backend and w = world_init
        and email = "JStr (js ''u@x.com'')" and password = "JStr (js ''pw'')"
        and data = "JObj [(js ''access_token'', JStr (js ''t0k3n'')), (js ''token_type'', JStr (js ''bearer''))]"
        and ?w1.0 = "snd (login example_backend (JStr (js ''u@x.com'')) (JStr (js ''pw'')) world_init)",
        THEN mp, OF run]
  have tok: "storage (snd (login example_backend (JStr (js ''u@x.com'')) (JStr (js ''pw'')) world_init))
        (js ''access_token'') = Some (js ''t0k3n'')"
    using fact by auto
  have who: "fst (me example_backend (snd (login example_backend (JStr (js ''u@x.com'')) (JStr (js ''pw'')) world_init)))
     = Fulfilled (JObj [(js ''id'', JNum 7), (js ''email'', JStr (js ''u@x.com''))])"
    using fact by (auto simp: example_backend_def js_def)
  show ?thesis
    using first tok who by simp
qed

section \<open>Decimal numerals\<close>








section \<open>Chat turns\<close>

lemma dropWhile_last:
  assumes "dropWhile P xs \<noteq> []"
  shows "last (dropWhile P xs) = last xs"
proof -
  have "xs = takeWhile P xs @ dropWhile P xs" by simp
  then have "last xs = last (takeWhile P xs @ dropWhile P xs)" by simp
  also have "\<dots> = last (dropWhile P xs)" using assms by (rule last_appendR)
  finally show ?thesis by simp
qed

lemma dropWhile_unchanged: "xs \<noteq> [] \<Longrightarrow> \<not> P (hd xs) \<Longrightarrow> dropWhile P xs = xs"
  by (cases xs) simp_all

lemma trim_no_leading_space:
  assumes "trim s \<noteq> []"
  shows "\<not> is_space (hd (trim s))" and "\<not> is_space (last (trim s))"
proof -
  let ?t = "dropWhile is_space s"
  let ?u = "dropWhile is_space (rev ?t)"
  have u: "?u \<noteq> []" using assms by (simp add: trim_def)
  have "?u = []" if "?t = []"
    unfolding that by (simp only: rev.simps dropWhile.simps)
  with u have t: "?t \<noteq> []" by blast
  have "last ?u = last (rev ?t)" using u by (rule dropWhile_last)
  also have "\<dots> = hd ?t" using t by (simp add: last_rev)
  finally have "last ?u = hd ?t" .
  moreover have "\<not> is_space (hd ?t)" using t by (rule hd_dropWhile)
  ultimately have "\<not> is_space (last ?u)" by simp
  then show "\<not> is_space (hd (trim s))" using u by (simp add: trim_def hd_rev)
  have "\<not> is_space (hd ?u)" using u by (rule hd_dropWhile)
  then show "\<not> is_space (last (trim s))" using u by (simp add: trim_def last_rev)
qed

lemma trim_trim: "trim (trim s) = trim s"
proof (cases "trim s = []")
  case True
  have "trim [] = []" by (simp add: trim_def)
  with True show ?thesis by simp
next
  case False
  have a: "dropWhile is_space (trim s) = trim s"
    using False trim_no_leading_space(1) [OF False] by (rule dropWhile_unchanged)
  have "rev (trim s) \<noteq> []" using False by simp
  moreover have "\<not> is_space (hd (rev (trim s)))"
    using False trim_no_leading_space(2) [OF False] by (simp add: hd_rev)
  ultimately have b: "dropWhile is_space (rev (trim s)) = rev (trim s)"
    by (rule dropWhile_unchanged)
  show ?thesis
    unfolding trim_def [of "trim s"] a b by simp
qed

lemma sendChat_payload_trimmed:
  assumes "trim x \<noteq> []"
  shows "sendChat_payload (JStr (trim x)) c JUndefined =
     Inr (JObj ([(js ''message'', JStr (trim x))]
          @ (if truthy c then [(js ''conversation_id'', c)] else [])))"
  using assms by (simp add: sendChat_payload_def trim_trim)

lemma onSend_finally_catch:
  "ToString (serverDetail e) = Inr s \<Longrightarrow>
     onSend_finally (onSend_catch e q) =
       Inr (q\<lparr>msgs := msgs q @ [\<lparr>role = js ''assistant'',
                   content = JStr ([0x26A0, 0xFE0F, 0x20] @ s)\<rparr>], chat_loading := False\<rparr>)"
  "ToString (serverDetail e) = Inl x \<Longrightarrow> onSend_finally (onSend_catch e q) = Inl x"
  by (simp_all add: onSend_finally_def onSend_catch_def warning_def)

lemma onSend_settle_Rejected:
  "onSend_settle (Rejected e) (p, w) = (onSend_finally (onSend_catch e p), w)"
  by (simp add: onSend_settle_def)

lemma onSend_settle_caught:
  assumes "caught oc w = Some e"
  shows "onSend_settle oc (p, w) = (onSend_finally (onSend_catch e (after_try oc p)), w)"
proof (cases oc)
  case (Rejected e')
  then show ?thesis using assms by (simp add: onSend_settle_Rejected)
next
  case (Fulfilled res)
  then show ?thesis using assms
    by (auto simp: onSend_settle_def read_prop_def split: sum.splits if_splits)
qed

lemma caught_None:
  assumes "caught oc w = None"
  shows "\<exists>res t. oc = Fulfilled res \<and> \<not> nullish res
     \<and> ToString (js_get res (js ''conversation_id'')) = Inr t
     \<and> accepts w (storage w) (js ''convId'') t"
proof (cases oc)
  case (Rejected e)
  then show ?thesis using assms by simp
next
  case (Fulfilled res)
  then show ?thesis using assms
    by (auto simp: read_prop_def setItem_def split: sum.splits if_splits)
qed

lemma onSend_settle_stored:
  assumes "\<not> nullish res" and "ToString (js_get res (js ''conversation_id'')) = Inr t"
    and "accepts w (storage w) (js ''convId'') t"
  shows "onSend_settle (Fulfilled res) (p, w) =
     (Inr (p\<lparr>convId := js_get res (js ''conversation_id''),
             msgs := msgs p @ [\<lparr>role = js ''assistant'', content = js_get res (js ''answer'')\<rparr>],
             chat_loading := False\<rparr>),
      w\<lparr>storage := (storage w)(js ''convId'' \<mapsto> t)\<rparr>)"
    and "caught (Fulfilled res) w = None"
  using assms
  by (simp_all add: onSend_settle_def read_prop_def setItem_def onSend_finally_def)

lemma exchange_failed_caught:
  assumes "exchange_failed oc"
  shows "\<exists>e. caught oc w = Some e" and "after_try oc p = p"
  using assms by (cases oc; simp add: read_prop_def)+

lemma onSend_settle_world:
  "turn_failed oc w \<Longrightarrow> snd (onSend_settle oc (p, w)) = w"
  by (auto simp: turn_failed_def onSend_settle_caught)

lemma onSend_finally_flag: "onSend_finally r = Inr p' \<Longrightarrow> \<not> chat_loading p'"
  by (auto simp: onSend_finally_def split: sum.splits)

lemma onSend_settle_flag: "fst (onSend_settle oc (p, w)) = Inr p' \<Longrightarrow> \<not> chat_loading p'"
  by (auto simp: onSend_settle_def Let_def split: prod.splits dest: onSend_finally_flag)

lemma handleSend_dispatches:
  assumes "trim (input_value a) \<noteq> []"
  shows "handleSend a =
     a\<lparr>page := (page a)\<lparr>msgs := msgs (page a) @
                 [\<lparr>role = js ''user'', content = JStr (trim (input_value a))\<rparr>],
               chat_loading := True\<rparr>,
       input_value := [],
       env := dispatch (api_request (env a) POST (js ''/chat'')
                (Some (JObj ([(js ''message'', JStr (trim (input_value a)))]
                   @ (if truthy (convId (page a)) then [(js ''conversation_id'', convId (page a))] else []))))
                [(js ''Content-Type'', js ''application/json'')]) (env a),
       inflight := inflight a @ [api_request (env a) POST (js ''/chat'')
                (Some (JObj ([(js ''message'', JStr (trim (input_value a)))]
                   @ (if truthy (convId (page a)) then [(js ''conversation_id'', convId (page a))] else []))))
                [(js ''Content-Type'', js ''application/json'')]]\<rparr>"
  using assms
  by (simp add: handleSend_def onSend_def onSend_begin_def sendChat_def
      sendChat_payload_trimmed Let_def)

lemma settle_parts:
  assumes "i < length (inflight a)"
  shows "env (settle i oc a) = snd (onSend_settle oc (page a, env a))"
    and "inflight (settle i oc a) = take i (inflight a) @ drop (Suc i) (inflight a)"
    and "input_value (settle i oc a) = input_value a"
    and "fst (onSend_settle oc (page a, env a)) = Inr p' \<Longrightarrow> mounted a \<Longrightarrow>
           page (settle i oc a) = p' \<and> mounted (settle i oc a)"
    and "fst (onSend_settle oc (page a, env a)) = Inl x \<Longrightarrow>
           page (settle i oc a) = page a \<and> \<not> mounted (settle i oc a)"
    and "\<not> mounted a \<Longrightarrow> page (settle i oc a) = page a \<and> \<not> mounted (settle i oc a)"
  using assms
  by (auto simp: settle_def Let_def split: prod.splits sum.splits)

lemma printable_iff: "printable v \<longleftrightarrow> (\<exists>s. ToString v = Inr s)"
  by (simp add: printable_def split: sum.splits)

lemma settle_rendered:
  assumes i: "i < length (inflight a)" and m: "mounted a"
    and r: "fst (onSend_settle oc (page a, env a)) = Inr p'"
  shows "page (settle i oc a) = p'" and "mounted (settle i oc a)"
  using settle_parts(4) [OF i r m] by simp_all

lemma settle_thrown:
  assumes i: "i < length (inflight a)"
    and r: "fst (onSend_settle oc (page a, env a)) = Inl x"
  shows "page (settle i oc a) = page a" and "\<not> mounted (settle i oc a)"
  using settle_parts(5) [OF i r] by simp_all

lemma settle_inflight:
  assumes "i < length (inflight a)"
  shows "Suc (length (inflight (settle i oc a))) = length (inflight a)"
  using assms by (simp add: settle_parts(2) [OF assms])

text \<open>
  Claim C1, amended. When the input trims to a non-empty string, \<open>handleSend\<close> appends
  exactly the entry \<open>{role: "user", content: text}\<close> to the transcript and puts exactly one
  request in flight: the entry is there while the request is pending. A request in flight
  settles once. When it settles on a mounted page, exactly one entry is appended, of role
  \<open>assistant\<close>, if the turn succeeds, and also if it fails with a reason that is
  printable. If it fails with a reason that is not printable, no entry is appended and the
  tree is unmounted. Strings, numbers and booleans are printable; a plain object is
  printable exactly when it has no own \<open>toString\<close> property.
\<close>

theorem submit_appends_one_of_each:
  "(trim (input_value a) \<noteq> [] \<longrightarrow>
      msgs (page (handleSend a)) =
        msgs (page a) @ [\<lparr>role = js ''user'', content = JStr (trim (input_value a))\<rparr>]
      \<and> length (inflight (handleSend a)) = Suc (length (inflight a)))
   \<and> (i < length (inflight a) \<longrightarrow> Suc (length (inflight (settle i oc a))) = length (inflight a))
   \<and> (i < length (inflight a) \<longrightarrow> mounted a \<longrightarrow> caught oc (env a) = None \<longrightarrow>
      (\<exists>m. role m = js ''assistant'' \<and> msgs (page (settle i oc a)) = msgs (page a) @ [m])
      \<and> mounted (settle i oc a))
   \<and> (i < length (inflight a) \<longrightarrow> mounted a \<longrightarrow> caught oc (env a) = Some e \<longrightarrow>
      printable (serverDetail e) \<longrightarrow>
      (\<exists>m. role m = js ''assistant'' \<and> msgs (page (settle i oc a)) = msgs (page a) @ [m])
      \<and> mounted (settle i oc a))
   \<and> (i < length (inflight a) \<longrightarrow> mounted a \<longrightarrow> caught oc (env a) = Some e \<longrightarrow>
      \<not> printable (serverDetail e) \<longrightarrow>
      msgs (page (settle i oc a)) = msgs (page a) \<and> \<not> mounted (settle i oc a))
   \<and> (printable (JStr s) \<and> printable (JNum n) \<and> printable (JBool b)
      \<and> (printable (JObj fs) \<longleftrightarrow> js ''toString'' \<notin> set (map fst fs)))"
proof (intro conjI impI)
  assume v: "trim (input_value a) \<noteq> []"
  show "msgs (page (handleSend a)) =
        msgs (page a) @ [\<lparr>role = js ''user'', content = JStr (trim (input_value a))\<rparr>]"
    by (simp add: handleSend_dispatches [OF v])
  show "length (inflight (handleSend a)) = Suc (length (inflight a))"
    by (simp add: handleSend_dispatches [OF v])
next
  assume "i < length (inflight a)"
  then show "Suc (length (inflight (settle i oc a))) = length (inflight a)"
    by (rule settle_inflight)
next
  assume i: "i < length (inflight a)" and m: "mounted a" and c: "caught oc (env a) = None"
  from caught_None [OF c]
  obtain res t where oc: "oc = Fulfilled res" and n: "\<not> nullish res"
    and t: "ToString (js_get res (js ''conversation_id'')) = Inr t"
    and acc: "accepts (env a) (storage (env a)) (js ''convId'') t"
    by blast
  note s = onSend_settle_stored(1) [OF n t acc, of "page a"]
  have r: "fst (onSend_settle oc (page a, env a)) =
      Inr ((page a)\<lparr>convId := js_get res (js ''conversation_id''),
             msgs := msgs (page a) @ [\<lparr>role = js ''assistant'', content = js_get res (js ''answer'')\<rparr>],
             chat_loading := False\<rparr>)"
    by (simp add: oc s)
  show "\<exists>m. role m = js ''assistant'' \<and> msgs (page (settle i oc a)) = msgs (page a) @ [m]"
    by (simp add: settle_rendered(1) [OF i m r])
  show "mounted (settle i oc a)"
    by (rule settle_rendered(2) [OF i m r])
next
  assume i: "i < length (inflight a)" and m: "mounted a" and c: "caught oc (env a) = Some e"
    and p: "printable (serverDetail e)"
  from p obtain s where s: "ToString (serverDetail e) = Inr s"
    by (auto simp: printable_iff)
  have q: "msgs (after_try oc (page a)) = msgs (page a)"
    by (cases oc) simp_all
  have r: "fst (onSend_settle oc (page a, env a)) =
      Inr ((after_try oc (page a))\<lparr>msgs := msgs (after_try oc (page a)) @ [\<lparr>role = js ''assistant'',
                   content = JStr ([0x26A0, 0xFE0F, 0x20] @ s)\<rparr>], chat_loading := False\<rparr>)"
    by (simp add: onSend_settle_caught [OF c] onSend_finally_catch(1) [OF s])
  show "\<exists>m. role m = js ''assistant'' \<and> msgs (page (settle i oc a)) = msgs (page a) @ [m]"
    by (simp add: settle_rendered(1) [OF i m r] q)
  show "mounted (settle i oc a)"
    by (rule settle_rendered(2) [OF i m r])
next
  assume i: "i < length (inflight a)" and c: "caught oc (env a) = Some e"
    and p: "\<not> printable (serverDetail e)"
  from p obtain x where x: "ToString (serverDetail e) = Inl x"
    by (cases "ToString (serverDetail e)") (auto simp: printable_iff)
  have r: "fst (onSend_settle oc (page a, env a)) = Inl x"
    by (simp add: onSend_settle_caught [OF c] onSend_finally_catch(2) [OF x])
  show "msgs (page (settle i oc a)) = msgs (page a)"
    by (simp add: settle_thrown(1) [OF i r])
  show "\<not> mounted (settle i oc a)"
    by (rule settle_thrown(2) [OF i r])
next
  show "printable (JStr s)" "printable (JNum n)" "printable (JBool b)"
    by (simp_all add: printable_def)
  show "printable (JObj fs) \<longleftrightarrow> js ''toString'' \<notin> set (map fst fs)"
    by (simp add: printable_def)
qed

lemma trim_example: "trim (js ''  dune  '') = js ''dune''"
  by (simp add: trim_def is_space_def js_def)

lemma example_app_input: "trim (input_value example_app) = js ''dune''"
  by (simp add: example_app_def trim_example)

lemma example_app_sent:
  "handleSend example_app =
     \<lparr>page = \<lparr>convId = JUndefined,
               msgs = [greeting, \<lparr>role = js ''user'', content = JStr (js ''dune'')\<rparr>],
               chat_loading = True\<rparr>,
      mounted = True,
      input_value = [],
      env = world_init\<lparr>sent := [\<lparr>verb = POST, url = js ''/chat'',
                       body = Some (JObj [(js ''message'', JStr (js ''dune''))]),
                       headers = [(js ''Content-Type'', js ''application/json'')],
                       bearer = None\<rparr>]\<rparr>,
      inflight = [\<lparr>verb = POST, url = js ''/chat'',
                       body = Some (JObj [(js ''message'', JStr (js ''dune''))]),
                       headers = [(js ''Content-Type'', js ''application/json'')],
                       bearer = None\<rparr>]\<rparr>"
proof -
  have v: "trim (input_value example_app) \<noteq> []"
    by (simp add: example_app_input js_def)
  have p: "page example_app = chat_init" and e: "env example_app = world_init"
    and f: "inflight example_app = []"
    by (simp_all add: example_app_def app_init_def load_convId_def getItem_def world_init_def)
  show ?thesis
    unfolding handleSend_dispatches [OF v] example_app_input p e f
    by (simp add: example_app_def app_init_def chat_init_def world_init_def api_request_def
        dispatch_def)
qed

lemma example_fields:
  "error_detail example_failure = JStr (js ''conversation not found'')"
  "error_detail example_empty_detail = JStr []"
  "error_message example_empty_detail = JStr (js ''Request failed with status code 400'')"
  "error_detail example_unprintable = JObj [(js ''toString'', JNum 0)]"
  "error_detail example_validation =
     JArr [JObj [(js ''loc'', JArr [JStr (js ''body''), JStr (js ''message'')]),
                 (js ''msg'', JStr (js ''field required''))],
           JObj [(js ''loc'', JArr [JStr (js ''body''), JStr (js ''where'')]),
                 (js ''msg'', JStr (js ''value is not a valid dict''))]]"
  by (simp_all add: error_detail_def error_message_def example_failure_def
      example_empty_detail_def example_unprintable_def example_validation_def opt_prop_def
      nullish_def js_def)

lemma example_reasons:
  "serverDetail example_failure = JStr (js ''conversation not found'')"
  "serverDetail example_empty_detail = JStr (js ''Request failed with status code 400'')"
  "serverDetail example_unprintable = JObj [(js ''toString'', JNum 0)]"
  "serverDetail example_validation =
     JArr [JObj [(js ''loc'', JArr [JStr (js ''body''), JStr (js ''message'')]),
                 (js ''msg'', JStr (js ''field required''))],
           JObj [(js ''loc'', JArr [JStr (js ''body''), JStr (js ''where'')]),
                 (js ''msg'', JStr (js ''value is not a valid dict''))]]"
  by (simp_all add: serverDetail_def js_or_def example_fields) (simp_all add: js_def)

lemma example_conversions:
  "ToString (JObj [(js ''toString'', JNum 0)]) = Inl TypeError_primitive"
  "ToString (JArr [JObj [(js ''loc'', JArr [JStr (js ''body''), JStr (js ''message'')]),
                 (js ''msg'', JStr (js ''field required''))],
           JObj [(js ''loc'', JArr [JStr (js ''body''), JStr (js ''where'')]),
                 (js ''msg'', JStr (js ''value is not a valid dict''))]]) = Inr (js ''[object Object],[object Object]'')"
  "ToString (JNum 42) = Inr (js ''42'')"
  "ToString (JNum (- 7)) = Inr (js ''-7'')"
  "ToString (JNum 9007199254740991) = Inr (js ''9007199254740991'')"
  "ToString JUndefined = Inr (js ''undefined'')"
  "ToString JNull = Inr (js ''null'')"
  "ToString (JBool True) = Inr (js ''true'')"
  "ToString (JBool False) = Inr (js ''false'')"
  "ToString (JArr [JStr (js ''a''), JNull, JNum 5, JUndefined, JArr [JBool True, JStr (js ''b'')]])
     = Inr (js ''a,,5,,true,b'')"
  "ToString (JArr [JStr (js ''a''), JObj [(js ''toString'', JNull)], JNum 5])
     = Inl TypeError_primitive"
  by (simp_all add: decimal_def digits.simps) (simp_all add: js_def)

text \<open>
  Claim C1, as stated, fails. After the submit of \<open>dune\<close>, the request is rejected with a
  body whose detail is \<open>{"toString": 0}\<close>. The exchange has settled, no request is in
  flight, and the transcript holds the greeting and the user entry only: no assistant
  entry was appended for this submit.
\<close>

theorem submit_appends_counterexample:
  "length (inflight (handleSend example_app)) = 1
   \<and> msgs (page (handleSend example_app)) =
       [greeting, \<lparr>role = js ''user'', content = JStr (js ''dune'')\<rparr>]
   \<and> inflight (settle 0 (Rejected example_unprintable) (handleSend example_app)) = []
   \<and> msgs (page (settle 0 (Rejected example_unprintable) (handleSend example_app))) =
       [greeting, \<lparr>role = js ''user'', content = JStr (js ''dune'')\<rparr>]
   \<and> \<not> mounted (settle 0 (Rejected example_unprintable) (handleSend example_app))"
proof -
  have i: "0 < length (inflight (handleSend example_app))"
    by (simp add: example_app_sent)
  have r: "fst (onSend_settle (Rejected example_unprintable)
      (page (handleSend example_app), env (handleSend example_app))) = Inl TypeError_primitive"
    by (simp add: onSend_settle_Rejected onSend_finally_catch(2) example_reasons
        example_conversions)
  show ?thesis
    using settle_thrown [OF i r] settle_parts(2) [OF i, of "Rejected example_unprintable"]
    by (simp add: example_app_sent)
qed

theorem submit_appends_one_of_each_witness:
  "msgs (page (handleSend example_app)) =
     [greeting, \<lparr>role = js ''user'', content = JStr (js ''dune'')\<rparr>]
   \<and> length (inflight (handleSend example_app)) = 1
   \<and> msgs (page (settle 0 (Fulfilled example_reply) (handleSend example_app))) =
     [greeting, \<lparr>role = js ''user'', content = JStr (js ''dune'')\<rparr>,
      \<lparr>role = js ''assistant'', content = JStr (js ''Try Dune'')\<rparr>]
   \<and> inflight (settle 0 (Fulfilled example_reply) (handleSend example_app)) = []
   \<and> mounted (settle 0 (Rejected example_failure) (handleSend example_app))
   \<and> \<not> mounted (settle 0 (Rejected example_unprintable) (handleSend example_app))"
proof -
  let ?a = "handleSend example_app"
  have v: "trim (input_value example_app) \<noteq> []"
    by (simp add: example_app_input js_def)
  have i: "0 < length (inflight ?a)" and m: "mounted ?a"
    by (simp_all add: example_app_sent)
  have r: "\<not> nullish example_reply"
    and t: "ToString (js_get example_reply (js ''conversation_id'')) = Inr (js ''abc123'')"
    and acc: "accepts (env ?a) (storage (env ?a)) (js ''convId'') (js ''abc123'')"
    by (simp_all add: example_reply_def nullish_def example_app_sent world_init_def)
  have p: "msgs (page example_app) = [greeting]" and f: "inflight example_app = []"
    by (simp_all add: example_app_def app_init_def load_convId_def getItem_def world_init_def
        chat_init_def)
  have first: "msgs (page ?a) =
      [greeting, \<lparr>role = js ''user'', content = JStr (js ''dune'')\<rparr>]
      \<and> length (inflight ?a) = 1"
    using submit_appends_one_of_each [where a = example_app] v
    by (simp add: example_app_input p f)
  have ok: "caught (Fulfilled example_reply) (env ?a) = None"
    by (rule onSend_settle_stored(2) [OF r t acc])
  have ans: "js_get example_reply (js ''answer'') = JStr (js ''Try Dune'')"
    by (simp add: example_reply_def js_def)
  have reply: "msgs (page (settle 0 (Fulfilled example_reply) ?a)) =
     [greeting, \<lparr>role = js ''user'', content = JStr (js ''dune'')\<rparr>,
      \<lparr>role = js ''assistant'', content = JStr (js ''Try Dune'')\<rparr>]"
    using settle_rendered(1) [OF i m, of "Fulfilled example_reply"]
      onSend_settle_stored(1) [OF r t acc, of "page ?a"] first
    by (simp add: ans)
  have gone: "inflight (settle 0 (Fulfilled example_reply) ?a) = []"
    using submit_appends_one_of_each [where a = ?a and i = 0
        and oc = "Fulfilled example_reply"] i first
    by simp
  have shown: "mounted (settle 0 (Rejected example_failure) ?a)"
    using submit_appends_one_of_each [where a = ?a and i = 0
        and oc = "Rejected example_failure" and e = example_failure] i m
    by (simp add: example_reasons printable_def)
  have crashed: "\<not> mounted (settle 0 (Rejected example_unprintable) ?a)"
    using submit_appends_one_of_each [where a = ?a and i = 0
        and oc = "Rejected example_unprintable" and e = example_unprintable] i m
    by (simp add: example_reasons printable_def example_conversions)
  show ?thesis
    using first reply gone shown crashed by simp
qed

text \<open>
  Claim C6. When the input is empty or trims to the empty string, \<open>handleSend\<close> changes
  nothing: the transcript, the log of requests and the requests in flight are as before.
  \<open>sendChat\<close> with a falsy message (missing, \<open>null\<close>, the empty string) or with a string
  of white space throws \<open>Error("Message is required")\<close> and leaves the world, hence the
  log of requests, as it was.
\<close>

theorem blank_submit_is_noop:
  "(trim (input_value a) = [] \<longrightarrow>
      handleSend a = a \<and> msgs (page (handleSend a)) = msgs (page a)
      \<and> sent (env (handleSend a)) = sent (env a) \<and> inflight (handleSend a) = inflight a)
   \<and> (\<not> truthy message \<longrightarrow>
      sendChat message c wh w = (Inl (Error (js ''Message is required'')), w))
   \<and> (trim s = [] \<longrightarrow>
      sendChat (JStr s) c wh w = (Inl (Error (js ''Message is required'')), w))"
  by (simp add: handleSend_def sendChat_def sendChat_payload_def)

theorem blank_submit_is_noop_witness:
  "handleSend example_blank = example_blank
   \<and> sendChat JUndefined JUndefined JUndefined world_init
       = (Inl (Error (js ''Message is required'')), world_init)
   \<and> sendChat (JStr []) JUndefined JUndefined world_init
       = (Inl (Error (js ''Message is required'')), world_init)
   \<and> sendChat (JStr (js ''   '')) (JStr (js ''abc123'')) JUndefined world_init
       = (Inl (Error (js ''Message is required'')), world_init)"
proof -
  have b: "trim (input_value example_blank) = []"
    by (simp add: example_blank_def trim_def is_space_def)
  have c: "trim (js ''   '') = []"
    by (simp add: trim_def is_space_def js_def)
  have d: "trim [] = []"
    by (simp add: trim_def)
  show ?thesis
    using blank_submit_is_noop [where a = example_blank and message = JUndefined
        and c = JUndefined and wh = JUndefined and w = world_init and s = "[]"]
      blank_submit_is_noop [where a = example_blank and message = JUndefined
        and c = "JStr (js ''abc123'')" and wh = JUndefined and w = world_init and s = "js ''   ''"]
      b c d
    by simp
qed

text \<open>
  Claim C2 does not hold of the code. From the initial view, typing \<open>a\<close>, sending, and
  typing \<open>b\<close> leads to a state whose loading flag is up with one request in flight; sending
  again is accepted, and two \<open>POST /chat\<close> requests are in flight together.
\<close>

theorem second_send_while_pending:
  "chat_loading (page (run [Change (js ''a''), Send, Change (js ''b'')] (app_init world_init)))
   \<and> length (inflight (run [Change (js ''a''), Send, Change (js ''b'')] (app_init world_init))) = 1
   \<and> length (inflight (run [Change (js ''a''), Send, Change (js ''b''), Send] (app_init world_init))) = 2
   \<and> map body (inflight (run [Change (js ''a''), Send, Change (js ''b''), Send] (app_init world_init)))
       = [Some (JObj [(js ''message'', JStr (js ''a''))]), Some (JObj [(js ''message'', JStr (js ''b''))])]"
proof -
  have a: "trim (js ''a'') = js ''a''" and b: "trim (js ''b'') = js ''b''"
    by (simp_all add: trim_def is_space_def js_def)
  have n: "js ''a'' \<noteq> []" "js ''b'' \<noteq> []"
    by (simp_all add: js_def)
  show ?thesis
    by (simp add: run_def handleSend_dispatches a b n app_init_def load_convId_def getItem_def
        world_init_def chat_init_def api_request_def dispatch_def)
qed

section \<open>The reason of a failure\<close>

lemma serverDetail_cases:
  "(truthy (error_detail e) \<longrightarrow> serverDetail e = error_detail e)
   \<and> (\<not> truthy (error_detail e) \<longrightarrow> truthy (error_message e) \<longrightarrow> serverDetail e = error_message e)
   \<and> (\<not> truthy (error_detail e) \<longrightarrow> \<not> truthy (error_message e) \<longrightarrow>
        serverDetail e = JStr (js ''Chat error''))"
  by (simp add: serverDetail_def js_or_def)

text \<open>
  Claim C3, as stated, fails. A rejection whose response body holds \<open>detail: ""\<close> has a
  server-supplied detail that is present, and the reason in the words of the claim is this
  (empty) detail; the entry appended reads the warning sign followed by the message of the
  error instead, since \<open>||\<close> passes over a falsy detail. And a rejection whose detail is
  \<open>{"toString": 0}\<close> has a detail that is present and chosen, but no entry is appended
  for it: the render throws.
\<close>

theorem failure_reason_counterexample:
  "error_detail example_empty_detail = JStr []
   \<and> spec_reason example_empty_detail = JStr []
   \<and> fst (onSend_settle (Rejected example_empty_detail) (chat_init, world_init)) =
       Inr \<lparr>convId = JUndefined,
            msgs = [greeting, \<lparr>role = js ''assistant'',
               content = JStr ([0x26A0, 0xFE0F, 0x20] @ js ''Request failed with status code 400'')\<rparr>],
            chat_loading = False\<rparr>
   \<and> fst (onSend_settle (Rejected example_empty_detail) (chat_init, world_init)) \<noteq>
       Inr \<lparr>convId = JUndefined,
            msgs = [greeting, \<lparr>role = js ''assistant'', content = JStr [0x26A0, 0xFE0F, 0x20]\<rparr>],
            chat_loading = False\<rparr>
   \<and> error_detail example_unprintable = JObj [(js ''toString'', JNum 0)]
   \<and> spec_reason example_unprintable = JObj [(js ''toString'', JNum 0)]
   \<and> fst (onSend_settle (Rejected example_unprintable) (chat_init, world_init)) =
       Inl TypeError_primitive"
proof -
  have s: "spec_reason example_empty_detail = JStr []"
    "spec_reason example_unprintable = JObj [(js ''toString'', JNum 0)]"
    by (simp_all add: spec_reason_def example_fields)
  have t: "ToString (serverDetail example_empty_detail) =
      Inr (js ''Request failed with status code 400'')"
    by (simp add: example_reasons)
  have u: "ToString (serverDetail example_unprintable) = Inl TypeError_primitive"
    by (simp add: example_reasons example_conversions)
  have n: "js ''Request failed with status code 400'' \<noteq> []"
    by (simp add: js_def)
  show ?thesis
    using n
    by (simp add: onSend_settle_Rejected onSend_finally_catch(1) [OF t]
        onSend_finally_catch(2) [OF u] s example_fields chat_init_def)
qed

text \<open>
  Claim C3, amended. The reason of a rejection \<open>e\<close> is the first truthy value among the
  detail of the response, the message of the error and the literal \<open>Chat error\<close>: a detail
  or message that is missing, \<open>null\<close>, empty, zero or \<open>false\<close> is passed over. When the
  reason converts to the string \<open>s\<close>, the second part of \<open>onSend\<close> appends one entry of
  role \<open>assistant\<close> whose content is the warning sign and a space followed by \<open>s\<close>, and
  leaves the earlier entries, the optimistic user entry among them, as they were. When the
  conversion throws, no entry is appended, the transcript is as it was and the tree is
  unmounted. A detail that is a non-empty string is the reason, and is printed as it is.
\<close>

theorem failure_reason:
  "(ToString (serverDetail e) = Inr s \<longrightarrow>
      onSend_settle (Rejected e) (p, w) =
        (Inr (p\<lparr>msgs := msgs p @ [\<lparr>role = js ''assistant'',
                    content = JStr ([0x26A0, 0xFE0F, 0x20] @ s)\<rparr>],
                chat_loading := False\<rparr>), w))
   \<and> (ToString (serverDetail e) = Inl x \<longrightarrow> onSend_settle (Rejected e) (p, w) = (Inl x, w))
   \<and> (i < length (inflight a) \<longrightarrow> mounted a \<longrightarrow> ToString (serverDetail e) = Inr s \<longrightarrow>
        msgs (page (settle i (Rejected e) a)) =
          msgs (page a) @ [\<lparr>role = js ''assistant'',
                 content = JStr ([0x26A0, 0xFE0F, 0x20] @ s)\<rparr>])
   \<and> (i < length (inflight a) \<longrightarrow> ToString (serverDetail e) = Inl x \<longrightarrow>
        msgs (page (settle i (Rejected e) a)) = msgs (page a)
        \<and> \<not> mounted (settle i (Rejected e) a))
   \<and> (truthy (error_detail e) \<longrightarrow> serverDetail e = error_detail e)
   \<and> (\<not> truthy (error_detail e) \<longrightarrow> truthy (error_message e) \<longrightarrow> serverDetail e = error_message e)
   \<and> (\<not> truthy (error_detail e) \<longrightarrow> \<not> truthy (error_message e) \<longrightarrow>
        serverDetail e = JStr (js ''Chat error''))
   \<and> (error_detail e = JStr d \<longrightarrow> d \<noteq> [] \<longrightarrow> ToString (serverDetail e) = Inr d)"
proof (intro conjI impI)
  assume s: "ToString (serverDetail e) = Inr s"
  show "onSend_settle (Rejected e) (p, w) =
        (Inr (p\<lparr>msgs := msgs p @ [\<lparr>role = js ''assistant'',
                    content = JStr ([0x26A0, 0xFE0F, 0x20] @ s)\<rparr>],
                chat_loading := False\<rparr>), w)"
    by (simp add: onSend_settle_Rejected onSend_finally_catch(1) [OF s])
next
  assume x: "ToString (serverDetail e) = Inl x"
  show "onSend_settle (Rejected e) (p, w) = (Inl x, w)"
    by (simp add: onSend_settle_Rejected onSend_finally_catch(2) [OF x])
next
  assume i: "i < length (inflight a)" and m: "mounted a"
    and s: "ToString (serverDetail e) = Inr s"
  have r: "fst (onSend_settle (Rejected e) (page a, env a)) =
      Inr ((page a)\<lparr>msgs := msgs (page a) @ [\<lparr>role = js ''assistant'',
                    content = JStr ([0x26A0, 0xFE0F, 0x20] @ s)\<rparr>],
                chat_loading := False\<rparr>)"
    by (simp add: onSend_settle_Rejected onSend_finally_catch(1) [OF s])
  show "msgs (page (settle i (Rejected e) a)) =
          msgs (page a) @ [\<lparr>role = js ''assistant'',
                 content = JStr ([0x26A0, 0xFE0F, 0x20] @ s)\<rparr>]"
    by (simp add: settle_rendered(1) [OF i m r])
next
  assume i: "i < length (inflight a)" and x: "ToString (serverDetail e) = Inl x"
  have r: "fst (onSend_settle (Rejected e) (page a, env a)) = Inl x"
    by (simp add: onSend_settle_Rejected onSend_finally_catch(2) [OF x])
  show "msgs (page (settle i (Rejected e) a)) = msgs (page a)"
    by (simp add: settle_thrown(1) [OF i r])
  show "\<not> mounted (settle i (Rejected e) a)"
    by (rule settle_thrown(2) [OF i r])
next
  assume "truthy (error_detail e)"
  then show "serverDetail e = error_detail e" using serverDetail_cases [of e] by blast
next
  assume "\<not> truthy (error_detail e)" and "truthy (error_message e)"
  then show "serverDetail e = error_message e" using serverDetail_cases [of e] by blast
next
  assume "\<not> truthy (error_detail e)" and "\<not> truthy (error_message e)"
  then show "serverDetail e = JStr (js ''Chat error'')" using serverDetail_cases [of e] by blast
next
  assume "error_detail e = JStr d" and "d \<noteq> []"
  then show "ToString (serverDetail e) = Inr d"
    by (simp add: serverDetail_def js_or_def)
qed

theorem failure_reason_witness:
  "msgs (page (settle 0 (Rejected example_failure) (handleSend example_app))) =
     [greeting, \<lparr>role = js ''user'', content = JStr (js ''dune'')\<rparr>,
      \<lparr>role = js ''assistant'',
       content = JStr ([0x26A0, 0xFE0F, 0x20] @ js ''conversation not found'')\<rparr>]
   \<and> msgs (page (settle 0 (Rejected example_validation) (handleSend example_app))) =
     [greeting, \<lparr>role = js ''user'', content = JStr (js ''dune'')\<rparr>,
      \<lparr>role = js ''assistant'',
       content = JStr ([0x26A0, 0xFE0F, 0x20] @ js ''[object Object],[object Object]'')\<rparr>]
   \<and> \<not> mounted (settle 0 (Rejected example_unprintable) (handleSend example_app))"
proof -
  let ?a = "handleSend example_app"
  have i: "0 < length (inflight ?a)" and m: "mounted ?a"
    and p: "msgs (page ?a) = [greeting, \<lparr>role = js ''user'', content = JStr (js ''dune'')\<rparr>]"
    by (simp_all add: example_app_sent)
  have n: "js ''conversation not found'' \<noteq> []"
    by (simp add: js_def)
  have t1: "ToString (serverDetail example_failure) = Inr (js ''conversation not found'')"
    using failure_reason [where e = example_failure and d = "js ''conversation not found''"] n
    by (simp add: example_fields)
  have t2: "ToString (serverDetail example_validation) = Inr (js ''[object Object],[object Object]'')"
    by (simp only: example_reasons example_conversions)
  have t3: "ToString (serverDetail example_unprintable) = Inl TypeError_primitive"
    by (simp only: example_reasons example_conversions)
  have found: "msgs (page (settle 0 (Rejected example_failure) ?a)) =
     [greeting, \<lparr>role = js ''user'', content = JStr (js ''dune'')\<rparr>,
      \<lparr>role = js ''assistant'',
       content = JStr ([0x26A0, 0xFE0F, 0x20] @ js ''conversation not found'')\<rparr>]"
    using failure_reason [where e = example_failure and a = ?a and i = 0
        and s = "js ''conversation not found''"] i m p t1
    by simp
  have listed: "msgs (page (settle 0 (Rejected example_validation) ?a)) =
     [greeting, \<lparr>role = js ''user'', content = JStr (js ''dune'')\<rparr>,
      \<lparr>role = js ''assistant'',
       content = JStr ([0x26A0, 0xFE0F, 0x20] @ js ''[object Object],[object Object]'')\<rparr>]"
    using failure_reason [where e = example_validation and a = ?a and i = 0
        and s = "js ''[object Object],[object Object]''"] i m p t2
    by simp
  have crashed: "\<not> mounted (settle 0 (Rejected example_unprintable) ?a)"
    using failure_reason [where e = example_unprintable and a = ?a and i = 0
        and x = TypeError_primitive] i t3
    by simp
  show ?thesis
    using found listed crashed by simp
qed

section \<open>Failed turns\<close>

lemma sendChat_payload_thrown:
  assumes "sendChat_payload t c wh = Inl e"
  shows "\<exists>m. m \<noteq> [] \<and> serverDetail e = JStr m"
proof -
  have a: "js ''Message is required'' \<noteq> []" and b: "js ''message.trim'' @ js '' is not a function'' \<noteq> []"
    by (simp_all add: js_def)
  have "e = Error (js ''Message is required'') \<or> e = TypeError_call (js ''message.trim'')"
    using assms by (auto simp: sendChat_payload_def split: if_splits jsval.splits)
  then show ?thesis
  proof
    assume "e = Error (js ''Message is required'')"
    then have "serverDetail e = JStr (js ''Message is required'')"
      using a by (simp add: serverDetail_def js_or_def error_detail_def error_message_def
          opt_prop_def nullish_def Error_def js_def)
    then show ?thesis using a by blast
  next
    assume "e = TypeError_call (js ''message.trim'')"
    then have "serverDetail e = JStr (js ''message.trim'' @ js '' is not a function'')"
      using b by (simp add: serverDetail_def js_or_def error_detail_def error_message_def
          opt_prop_def nullish_def Error_def TypeError_call_def js_def)
    then show ?thesis using b by blast
  qed
qed

lemma onSend_thrown:
  assumes "sendChat_payload t (convId (page a)) JUndefined = Inl e"
  shows "\<exists>m. onSend t a =
     a\<lparr>page := (page a)\<lparr>msgs := msgs (page a) @ [\<lparr>role = js ''user'', content = t\<rparr>,
                 \<lparr>role = js ''assistant'', content = JStr ([0x26A0, 0xFE0F, 0x20] @ m)\<rparr>],
               chat_loading := False\<rparr>\<rparr>"
proof -
  from sendChat_payload_thrown [OF assms]
  obtain m where m: "serverDetail e = JStr m" by blast
  then have s: "ToString (serverDetail e) = Inr m" by simp
  have "onSend t a =
     a\<lparr>page := (page a)\<lparr>msgs := msgs (page a) @ [\<lparr>role = js ''user'', content = t\<rparr>,
                 \<lparr>role = js ''assistant'', content = JStr ([0x26A0, 0xFE0F, 0x20] @ m)\<rparr>],
               chat_loading := False\<rparr>\<rparr>"
    using assms
    by (simp add: onSend_def onSend_begin_def sendChat_def onSend_settle_Rejected
        onSend_finally_catch(1) [OF s] Let_def)
  then show ?thesis by blast
qed

lemma settle_chat_loading:
  assumes i: "i < length (inflight a)" and m: "mounted (settle i oc a)"
  shows "\<not> chat_loading (page (settle i oc a))"
proof (cases "mounted a")
  case False
  then show ?thesis using settle_parts(6) [OF i] m by simp
next
  case True
  show ?thesis
  proof (cases "fst (onSend_settle oc (page a, env a))")
    case (Inl x)
    then show ?thesis using settle_thrown(2) [OF i] m by simp
  next
    case (Inr p')
    then show ?thesis
      using settle_rendered(1) [OF i True Inr] onSend_settle_flag [OF Inr] by simp
  qed
qed

lemma settle_convId_exchange_failed:
  assumes i: "i < length (inflight a)" and f: "exchange_failed oc"
  shows "convId (page (settle i oc a)) = convId (page a)"
proof (cases "mounted a")
  case False
  then show ?thesis using settle_parts(6) [OF i] by simp
next
  case True
  from exchange_failed_caught [OF f]
  obtain e where c: "caught oc (env a) = Some e" and t: "after_try oc (page a) = page a"
    by blast
  show ?thesis
  proof (cases "fst (onSend_settle oc (page a, env a))")
    case (Inl x)
    then show ?thesis using settle_thrown(1) [OF i] by simp
  next
    case (Inr p')
    then have "convId p' = convId (page a)"
      by (auto simp: onSend_settle_caught [OF c] t onSend_finally_def onSend_catch_def
          split: sum.splits)
    then show ?thesis using settle_rendered(1) [OF i True Inr] by simp
  qed
qed

text \<open>
  Claim C10, as stated, fails. Over a storage that holds \<open>abc123\<close> and refuses writes, a
  reply with the identifier \<open>xyz789\<close> makes \<open>localStorage.setItem\<close> throw after
  \<open>setConvId\<close> has run: the turn fails (the \<open>catch\<close> block appends the warning), the held
  identifier has advanced to \<open>xyz789\<close>, and the stored one is still \<open>abc123\<close>.
\<close>

theorem failed_turn_counterexample:
  "turn_failed (Fulfilled example_other_reply) world_full
   \<and> \<not> exchange_failed (Fulfilled example_other_reply)
   \<and> convId (page (app_init world_full)) = JStr (js ''abc123'')
   \<and> fst (onSend_settle (Fulfilled example_other_reply) (page (app_init world_full), world_full)) =
       Inr \<lparr>convId = JStr (js ''xyz789''),
            msgs = [greeting, \<lparr>role = js ''assistant'',
               content = JStr ([0x26A0, 0xFE0F, 0x20] @ js ''Failed to execute '' @ [0x27]
                 @ js ''setItem'' @ [0x27] @ js '' on '' @ [0x27] @ js ''Storage'' @ [0x27]
                 @ js '': Setting the value of '' @ [0x27] @ js ''convId'' @ [0x27]
                 @ js '' exceeded the quota.'')\<rparr>],
            chat_loading = False\<rparr>
   \<and> JStr (js ''xyz789'') \<noteq> JStr (js ''abc123'')
   \<and> storage (snd (onSend_settle (Fulfilled example_other_reply)
         (page (app_init world_full), world_full))) (js ''convId'') = Some (js ''abc123'')"
proof -
  have c: "caught (Fulfilled example_other_reply) world_full = Some (QuotaExceededError (js ''convId''))"
    by (simp add: example_other_reply_def read_prop_def nullish_def setItem_def world_full_def
        world_refusing_def)
  have p: "page (app_init world_full) =
      \<lparr>convId = JStr (js ''abc123''), msgs = [greeting], chat_loading = False\<rparr>"
    by (simp add: app_init_def load_convId_def getItem_def world_full_def world_refusing_def
        chat_init_def) (simp add: js_def)
  have m: "serverDetail (QuotaExceededError (js ''convId'')) =
      JStr (js ''Failed to execute '' @ [0x27]
                 @ js ''setItem'' @ [0x27] @ js '' on '' @ [0x27] @ js ''Storage'' @ [0x27]
                 @ js '': Setting the value of '' @ [0x27] @ js ''convId'' @ [0x27]
                 @ js '' exceeded the quota.'')"
    by (simp add: serverDetail_def js_or_def error_detail_def error_message_def opt_prop_def
        nullish_def QuotaExceededError_def) (simp add: js_def)
  have t: "ToString (serverDetail (QuotaExceededError (js ''convId''))) =
      Inr (js ''Failed to execute '' @ [0x27]
                 @ js ''setItem'' @ [0x27] @ js '' on '' @ [0x27] @ js ''Storage'' @ [0x27]
                 @ js '': Setting the value of '' @ [0x27] @ js ''convId'' @ [0x27]
                 @ js '' exceeded the quota.'')"
    by (simp only: m ToString.simps)
  have a: "after_try (Fulfilled example_other_reply) (page (app_init world_full)) =
      \<lparr>convId = JStr (js ''xyz789''), msgs = [greeting], chat_loading = False\<rparr>"
    by (simp add: p example_other_reply_def nullish_def)
  have s: "onSend_settle (Fulfilled example_other_reply) (page (app_init world_full), world_full) =
      (Inr \<lparr>convId = JStr (js ''xyz789''),
            msgs = [greeting, \<lparr>role = js ''assistant'',
               content = JStr ([0x26A0, 0xFE0F, 0x20] @ js ''Failed to execute '' @ [0x27]
                 @ js ''setItem'' @ [0x27] @ js '' on '' @ [0x27] @ js ''Storage'' @ [0x27]
                 @ js '': Setting the value of '' @ [0x27] @ js ''convId'' @ [0x27]
                 @ js '' exceeded the quota.'')\<rparr>],
            chat_loading = False\<rparr>, world_full)"
    unfolding onSend_settle_caught [OF c] a onSend_finally_catch(1) [OF t] by simp
  have f: "turn_failed (Fulfilled example_other_reply) world_full"
    unfolding turn_failed_def c by simp
  have x: "\<not> exchange_failed (Fulfilled example_other_reply)"
    by (simp add: example_other_reply_def nullish_def)
  have n: "JStr (js ''xyz789'') \<noteq> JStr (js ''abc123'')"
    by (simp add: js_def)
  have st: "storage world_full (js ''convId'') = Some (js ''abc123'')"
    by (simp add: world_full_def world_refusing_def)
  have held: "convId (page (app_init world_full)) = JStr (js ''abc123'')"
    by (simp add: p)
  show ?thesis
    using f x n st held by (simp add: s)
qed

lemma onSend_settle_exchange_failed:
  assumes f: "exchange_failed oc" and r: "fst (onSend_settle oc (p, w)) = Inr p'"
  shows "convId p' = convId p"
proof -
  from exchange_failed_caught [OF f]
  obtain e where c: "caught oc w = Some e" and t: "after_try oc p = p"
    by blast
  show ?thesis
    using r by (auto simp: onSend_settle_caught [OF c] t onSend_finally_def onSend_catch_def
        split: sum.splits)
qed

lemma onSend_settle_advanced:
  assumes n: "\<not> nullish res" and r: "fst (onSend_settle (Fulfilled res) (p, w)) = Inr p'"
  shows "convId p' = js_get res (js ''conversation_id'')"
  using assms
  by (auto simp: onSend_settle_def read_prop_def onSend_finally_def onSend_catch_def
      split: sum.splits)

lemma onSend_settle_Inl:
  assumes "fst (onSend_settle oc (p, w)) = Inl x"
  shows "turn_failed oc w"
proof (rule ccontr)
  assume "\<not> turn_failed oc w"
  then have c: "caught oc w = None" by (simp add: turn_failed_def)
  from caught_None [OF c]
  obtain res t where "oc = Fulfilled res" "\<not> nullish res"
    "ToString (js_get res (js ''conversation_id'')) = Inr t"
    "accepts w (storage w) (js ''convId'') t"
    by blast
  then show False using assms by (simp add: onSend_settle_stored(1))
qed

text \<open>
  Claim C10, amended. On every failed turn the world, hence the persisted identifier, is
  as before. When the exchange itself fails (a rejection, or a body that is \<open>null\<close> or
  \<open>undefined\<close>) the turn fails and the held identifier is as before; when the body was read
  and the turn fails at the write to the storage, the held identifier is the one of the
  body. Whenever the page renders after the settlement the loading flag is down, and a
  render throws only on a failed turn. The same holds for a request in flight in the view,
  and for a call that \<open>sendChat\<close> refuses before sending.
\<close>

theorem failed_turn_keeps_conversation:
  "(turn_failed oc w \<longrightarrow> snd (onSend_settle oc (p, w)) = w)
   \<and> (exchange_failed oc \<longrightarrow> turn_failed oc w)
   \<and> (exchange_failed oc \<longrightarrow> fst (onSend_settle oc (p, w)) = Inr p' \<longrightarrow> convId p' = convId p)
   \<and> (\<not> nullish res \<longrightarrow> fst (onSend_settle (Fulfilled res) (p, w)) = Inr p' \<longrightarrow>
        convId p' = js_get res (js ''conversation_id''))
   \<and> (fst (onSend_settle oc (p, w)) = Inr p' \<longrightarrow> \<not> chat_loading p')
   \<and> (fst (onSend_settle oc (p, w)) = Inl x \<longrightarrow> turn_failed oc w)
   \<and> (i < length (inflight a) \<longrightarrow> turn_failed oc (env a) \<longrightarrow> env (settle i oc a) = env a)
   \<and> (i < length (inflight a) \<longrightarrow> exchange_failed oc \<longrightarrow>
        convId (page (settle i oc a)) = convId (page a))
   \<and> (i < length (inflight a) \<longrightarrow> mounted (settle i oc a) \<longrightarrow>
        \<not> chat_loading (page (settle i oc a)))
   \<and> (sendChat_payload t (convId (page a)) JUndefined = Inl e \<longrightarrow>
        convId (page (onSend t a)) = convId (page a)
        \<and> env (onSend t a) = env a
        \<and> \<not> chat_loading (page (onSend t a)))"
proof (intro conjI impI)
  assume "turn_failed oc w"
  then show "snd (onSend_settle oc (p, w)) = w" by (rule onSend_settle_world)
next
  assume "exchange_failed oc"
  then show "turn_failed oc w"
    using exchange_failed_caught(1) [of oc w] by (auto simp: turn_failed_def)
next
  assume "exchange_failed oc" and "fst (onSend_settle oc (p, w)) = Inr p'"
  then show "convId p' = convId p" by (rule onSend_settle_exchange_failed)
next
  assume "\<not> nullish res" and "fst (onSend_settle (Fulfilled res) (p, w)) = Inr p'"
  then show "convId p' = js_get res (js ''conversation_id'')" by (rule onSend_settle_advanced)
next
  assume "fst (onSend_settle oc (p, w)) = Inr p'"
  then show "\<not> chat_loading p'" by (rule onSend_settle_flag)
next
  assume "fst (onSend_settle oc (p, w)) = Inl x"
  then show "turn_failed oc w" by (rule onSend_settle_Inl)
next
  assume i: "i < length (inflight a)" and f: "turn_failed oc (env a)"
  show "env (settle i oc a) = env a"
    by (simp add: settle_parts(1) [OF i] onSend_settle_world [OF f])
next
  assume "i < length (inflight a)" and "exchange_failed oc"
  then show "convId (page (settle i oc a)) = convId (page a)"
    by (rule settle_convId_exchange_failed)
next
  assume "i < length (inflight a)" and "mounted (settle i oc a)"
  then show "\<not> chat_loading (page (settle i oc a))" by (rule settle_chat_loading)
next
  assume t: "sendChat_payload t (convId (page a)) JUndefined = Inl e"
  from onSend_thrown [OF t] obtain m where o: "onSend t a =
     a\<lparr>page := (page a)\<lparr>msgs := msgs (page a) @ [\<lparr>role = js ''user'', content = t\<rparr>,
                 \<lparr>role = js ''assistant'', content = JStr ([0x26A0, 0xFE0F, 0x20] @ m)\<rparr>],
               chat_loading := False\<rparr>\<rparr>"
    by blast
  show "convId (page (onSend t a)) = convId (page a)"
    and "env (onSend t a) = env a"
    and "\<not> chat_loading (page (onSend t a))"
    by (simp_all add: o)
qed

lemma example_resumed_sent:
  "handleSend example_resumed =
     \<lparr>page = \<lparr>convId = JStr (js ''abc123''),
               msgs = [greeting, \<lparr>role = js ''user'', content = JStr (js ''more'')\<rparr>],
               chat_loading = True\<rparr>,
      mounted = True,
      input_value = [],
      env = world_init\<lparr>storage := [js ''convId'' \<mapsto> js ''abc123''],
              sent := [\<lparr>verb = POST, url = js ''/chat'',
                       body = Some (JObj [(js ''message'', JStr (js ''more'')),
                                          (js ''conversation_id'', JStr (js ''abc123''))]),
                       headers = [(js ''Content-Type'', js ''application/json'')],
                       bearer = None\<rparr>]\<rparr>,
      inflight = [\<lparr>verb = POST, url = js ''/chat'',
                       body = Some (JObj [(js ''message'', JStr (js ''more'')),
                                          (js ''conversation_id'', JStr (js ''abc123''))]),
                       headers = [(js ''Content-Type'', js ''application/json'')],
                       bearer = None\<rparr>]\<rparr>"
proof -
  have t: "trim (input_value example_resumed) = js ''more''"
    by (simp add: example_resumed_def trim_def is_space_def js_def)
  have v: "trim (input_value example_resumed) \<noteq> []"
    by (simp add: t js_def)
  have p: "page example_resumed =
      \<lparr>convId = JStr (js ''abc123''), msgs = [greeting], chat_loading = False\<rparr>"
    by (simp add: example_resumed_def app_init_def load_convId_def getItem_def world_init_def
        chat_init_def) (simp add: js_def)
  have n: "js ''abc123'' \<noteq> []"
    by (simp add: js_def)
  have k: "js ''convId'' \<noteq> js ''access_token''"
    by (simp add: js_def)
  show ?thesis
    unfolding handleSend_dispatches [OF v] t p
    using n k
    by (simp add: example_resumed_def app_init_def world_init_def api_request_def dispatch_def)
qed

theorem failed_turn_keeps_conversation_witness:
  "convId (page (settle 0 (Rejected example_failure) (handleSend example_resumed)))
     = JStr (js ''abc123'')
   \<and> storage (env (settle 0 (Fulfilled JNull) (handleSend example_resumed))) (js ''convId'')
     = Some (js ''abc123'')
   \<and> \<not> chat_loading (page (settle 0 (Rejected example_failure) (handleSend example_resumed)))
   \<and> \<not> chat_loading (page (onSend (JNum 5) example_resumed))"
proof -
  let ?a = "handleSend example_resumed"
  have i: "0 < length (inflight ?a)" and m: "mounted ?a"
    and h: "convId (page ?a) = JStr (js ''abc123'')"
    and st: "storage (env ?a) (js ''convId'') = Some (js ''abc123'')"
    by (simp_all add: example_resumed_sent)
  have a: "exchange_failed (Rejected example_failure)" and b: "exchange_failed (Fulfilled JNull)"
    by (simp_all add: nullish_def)
  have c: "sendChat_payload (JNum 5) (convId (page example_resumed)) JUndefined
      = Inl (TypeError_call (js ''message.trim''))"
    by (simp add: sendChat_payload_def)
  have t: "ToString (serverDetail example_failure) = Inr (js ''conversation not found'')"
    by (simp add: example_reasons)
  have shown: "mounted (settle 0 (Rejected example_failure) ?a)"
    using settle_rendered(2) [OF i m, of "Rejected example_failure"]
    by (simp add: onSend_settle_Rejected onSend_finally_catch(1) [OF t])
  note f1 = failed_turn_keeps_conversation [where a = ?a and i = 0
      and oc = "Rejected example_failure" and w = "env ?a"]
  note f2 = failed_turn_keeps_conversation [where a = ?a and i = 0
      and oc = "Fulfilled JNull" and w = "env ?a"]
  note f3 = failed_turn_keeps_conversation [where a = example_resumed and t = "JNum 5"
      and e = "TypeError_call (js ''message.trim'')"]
  have first: "convId (page (settle 0 (Rejected example_failure) ?a)) = JStr (js ''abc123'')"
    using f1 i a h by simp
  have second: "storage (env (settle 0 (Fulfilled JNull) ?a)) (js ''convId'') = Some (js ''abc123'')"
    using f2 i b st by simp
  have third: "\<not> chat_loading (page (settle 0 (Rejected example_failure) ?a))"
    using f1 i shown by blast
  have fourth: "\<not> chat_loading (page (onSend (JNum 5) example_resumed))"
    using f3 c by blast
  show ?thesis
    using first second third fourth by simp
qed

section \<open>Resuming a conversation\<close>















end
